theory Spec2Isabelle
  imports Complex_Main
begin

section \<open>Numbers and signals\<close>

text \<open>
  A JavaScript Number (and a Python float) is modelled as \<open>real option\<close>:
  \<open>Some x\<close> is the finite value \<open>x\<close>, \<open>None\<close> is NaN (JavaScript's
  \<open>undefined\<close>, which arithmetic and comparison coerce to NaN, is \<open>None\<close> too).
  Arithmetic on finite values is exact in the moving averages; infinities and signed
  zeros are not part of the model. Where a property depends on the rounding of binary64,
  in the price distances of an order, the exact result is rounded by \<open>binary64\<close> below.
\<close>

type_synonym jsnum = "real option"

definition js_add :: "jsnum \<Rightarrow> jsnum \<Rightarrow> jsnum" where
  "js_add a b =
     (case a of None \<Rightarrow> None
      | Some x \<Rightarrow> (case b of None \<Rightarrow> None | Some y \<Rightarrow> Some (x + y)))"

definition js_mul :: "jsnum \<Rightarrow> jsnum \<Rightarrow> jsnum" where
  "js_mul a b =
     (case a of None \<Rightarrow> None
      | Some x \<Rightarrow> (case b of None \<Rightarrow> None | Some y \<Rightarrow> Some (x * y)))"

text \<open>Every comparison with NaN is false.\<close>

definition js_gt :: "jsnum \<Rightarrow> jsnum \<Rightarrow> bool" where
  "js_gt a b =
     (case a of None \<Rightarrow> False
      | Some x \<Rightarrow> (case b of None \<Rightarrow> False | Some y \<Rightarrow> x > y))"

definition js_lt :: "jsnum \<Rightarrow> jsnum \<Rightarrow> bool" where
  "js_lt a b =
     (case a of None \<Rightarrow> False
      | Some x \<Rightarrow> (case b of None \<Rightarrow> False | Some y \<Rightarrow> x < y))"

definition js_le :: "jsnum \<Rightarrow> jsnum \<Rightarrow> bool" where
  "js_le a b =
     (case a of None \<Rightarrow> False
      | Some x \<Rightarrow> (case b of None \<Rightarrow> False | Some y \<Rightarrow> x \<le> y))"

definition js_ge :: "jsnum \<Rightarrow> jsnum \<Rightarrow> bool" where
  "js_ge a b =
     (case a of None \<Rightarrow> False
      | Some x \<Rightarrow> (case b of None \<Rightarrow> False | Some y \<Rightarrow> x \<ge> y))"

subsection \<open>Rounding to binary64\<close>

text \<open>
  An arithmetic operation on Numbers returns the exact result rounded to the nearest
  binary64 value, ties to the even significand. \<open>scale_up\<close> and \<open>scale_down\<close> bring the
  magnitude into \<open>[2^52, 2^53)\<close> by doubling at most 1074 times and halving at most 971
  times, which is possible exactly for the magnitudes of the normal range, from
  \<open>2^-1022\<close> up to \<open>2^1024\<close>; the scaled magnitude is rounded to an integer and scaled
  back. Outside the normal range (subnormal results, overflow to infinity) a value is left
  as it is: the model says nothing about binary64 there.
\<close>

definition pow2 :: "int \<Rightarrow> real" where
  "pow2 e = (if 0 \<le> e then 2 ^ nat e else 1 / 2 ^ nat (- e))"

definition round_half_even :: "real \<Rightarrow> int" where
  "round_half_even y =
     (let f = \<lfloor>y\<rfloor>; d = y - of_int f
      in if d < 1 / 2 then f else if 1 / 2 < d then f + 1 else if even f then f else f + 1)"

primrec scale_up :: "nat \<Rightarrow> real \<Rightarrow> int \<Rightarrow> real \<times> int" where
  "scale_up 0 y e = (y, e)"
| "scale_up (Suc k) y e = (if y < 2 ^ 52 then scale_up k (2 * y) (e - 1) else (y, e))"

primrec scale_down :: "nat \<Rightarrow> real \<Rightarrow> int \<Rightarrow> real \<times> int" where
  "scale_down 0 y e = (y, e)"
| "scale_down (Suc k) y e = (if 2 ^ 53 \<le> y then scale_down k (y / 2) (e + 1) else (y, e))"

definition binary64 :: "real \<Rightarrow> real" where
  "binary64 x =
     (case scale_up 1074 \<bar>x\<bar> 0 of
        (y1, e1) \<Rightarrow>
          (case scale_down 971 y1 e1 of
             (y, e) \<Rightarrow>
               if 2 ^ 52 \<le> y \<and> y < 2 ^ 53
               then sgn x * of_int (round_half_even y) * pow2 e
               else x))"


datatype trade_direction = BUY | SELL

text \<open>
  The candle arrays handed to a strategy (\<open>fetchOANDAMarketData\<close> builds them), and the
  three signal arrays a strategy evaluation returns.
\<close>

record market_data =
  open' :: "jsnum list"
  high :: "jsnum list"
  low :: "jsnum list"
  close :: "jsnum list"
  volume :: "jsnum list"

record signals =
  entry :: "bool list"
  exit :: "bool list"
  direction :: "trade_direction option list"

section \<open>The moving averages\<close>

subsection \<open>\<open>calculateEMA\<close> of the scheduled executor\<close>

text \<open>
  \<open>ema_loop\<close> is the \<open>for\<close> loop of \<open>calculateEMA\<close> from index 1 on; \<open>prev\<close> is
  \<open>ema[i - 1]\<close>. The assignment \<open>ema[0] = data[0]\<close> before the loop makes the result
  of an empty input the one-element array \<open>[undefined]\<close>.
\<close>

fun ema_loop :: "real \<Rightarrow> jsnum \<Rightarrow> jsnum list \<Rightarrow> jsnum list" where
  "ema_loop multiplier prev [] = []"
| "ema_loop multiplier prev (x # xs) =
     (let e = js_add (js_mul x (Some multiplier)) (js_mul prev (Some (1 - multiplier)))
      in e # ema_loop multiplier e xs)"

definition calculateEMA :: "jsnum list \<Rightarrow> nat \<Rightarrow> jsnum list" where
  "calculateEMA data period =
     (let multiplier = 2 / (real period + 1)
      in case data of [] \<Rightarrow> [None] | x # xs \<Rightarrow> x # ema_loop multiplier x xs)"

subsection \<open>\<open>TechnicalAnalysis.ema\<close> of the sandbox library\<close>

text \<open>
  The Python helper skips leading NaN samples, seeds at the first sample that is a
  number, and carries the previous average over a later NaN sample.
\<close>

fun py_ema_loop :: "real \<Rightarrow> jsnum \<Rightarrow> jsnum list \<Rightarrow> jsnum list" where
  "py_ema_loop multiplier prev [] = []"
| "py_ema_loop multiplier prev (x # xs) =
     (let r = (if x \<noteq> None
               then js_add (js_mul x (Some multiplier)) (js_mul prev (Some (1 - multiplier)))
               else prev)
      in r # py_ema_loop multiplier r xs)"

definition ema :: "jsnum list \<Rightarrow> int \<Rightarrow> jsnum list" where
  "ema data period =
     (if data = [] \<or> period \<le> 0 then replicate (length data) None
      else
        let multiplier = 2 / (real_of_int period + 1);
            start_idx = length (takeWhile (\<lambda>x. x = None) data)
        in if start_idx \<ge> length data then replicate (length data) None
           else replicate start_idx None
                @ (data ! start_idx)
                # py_ema_loop multiplier (data ! start_idx) (drop (start_idx + 1) data))"

section \<open>Strategy evaluation of the scheduled executor\<close>

text \<open>
  \<open>bar_signal\<close> is the body of the loop over the bars in \<open>executeStrategyLogic\<close>: what
  is pushed on \<open>entry\<close>, \<open>exit\<close> and \<open>direction\<close> at index \<open>i\<close>.
\<close>

definition bar_signal ::
  "jsnum list \<Rightarrow> jsnum list \<Rightarrow> bool \<Rightarrow> nat \<Rightarrow> bool \<times> bool \<times> trade_direction option" where
  "bar_signal ema21 ema55 reverseSignals i =
     (if i < 55 then (False, False, None)
      else
        let bullish = (js_gt (ema21 ! i) (ema55 ! i) \<and> js_le (ema21 ! (i - 1)) (ema55 ! (i - 1)));
            bearish = (js_lt (ema21 ! i) (ema55 ! i) \<and> js_ge (ema21 ! (i - 1)) (ema55 ! (i - 1)))
        in if reverseSignals
           then (if bearish then (True, False, Some BUY)
                 else if bullish then (True, False, Some SELL)
                 else (False, False, None))
           else (if bullish then (True, False, Some BUY)
                 else if bearish then (True, False, Some SELL)
                 else (False, False, None)))"

definition executeStrategyLogic :: "string \<Rightarrow> market_data \<Rightarrow> bool \<Rightarrow> signals" where
  "executeStrategyLogic strategyCode marketData reverseSignals =
     (let ema21 = calculateEMA (close marketData) 21;
          ema55 = calculateEMA (close marketData) 55;
          bars = map (bar_signal ema21 ema55 reverseSignals) [0..<length (close marketData)]
      in \<lparr>entry = map fst bars,
          exit = map (\<lambda>b. fst (snd b)) bars,
          direction = map (\<lambda>b. snd (snd b)) bars\<rparr>)"

definition swap_direction :: "trade_direction \<Rightarrow> trade_direction" where
  "swap_direction d = (case d of BUY \<Rightarrow> SELL | SELL \<Rightarrow> BUY)"

text \<open>A computed value lies within \<open>tol\<close> of an expected number (NaN never does).\<close>

definition within_tol :: "real \<Rightarrow> real \<Rightarrow> jsnum \<Rightarrow> bool" where
  "within_tol tol expected actual =
     (case actual of None \<Rightarrow> False | Some v \<Rightarrow> \<bar>v - expected\<bar> \<le> tol)"

definition sample_close :: "jsnum list" where
  "sample_close = [Some (110 / 100), Some (111 / 100), Some (112 / 100), Some (109 / 100), Some (108 / 100)]"

text \<open>Fifty-six flat bars and a jump: the averages cross upwards at the last bar.\<close>

definition crossing_close :: "jsnum list" where
  "crossing_close = replicate 56 (Some 1) @ [Some 2]"


section \<open>Sessions, market hours and the brokerage\<close>

text \<open>
  A row of the \<open>trading_sessions\<close> table, with the columns \<open>startSession\<close> writes and the
  scheduled executor reads. The column \<open>id\<close> is written \<open>id'\<close>.
\<close>

record session =
  id' :: string
  user_id :: string
  strategy_id :: string
  strategy_name :: string
  strategy_code :: string
  symbol :: string
  timeframe :: string
  oanda_account_id :: string
  oanda_api_key :: string
  environment :: string
  is_active :: bool
  last_execution :: string
  risk_per_trade :: real
  stop_loss :: real
  take_profit :: real
  max_position_size :: real
  reverse_signals :: bool
  avoid_low_volume :: bool

text \<open>
  The clock reading of a tick: \<open>getUTCDay()\<close> (0 is Sunday, 6 is Saturday),
  \<open>getUTCHours()\<close> and \<open>toISOString()\<close> of \<open>new Date()\<close>. One reading serves the whole
  tick.
\<close>

record utc_now =
  dayOfWeek :: nat
  hourUTC :: nat
  toISOString :: string

text \<open>
  \<open>nextOpen\<close> and \<open>nextClose\<close> of the market status (calendar arithmetic on dates, read
  only to fill \<open>nextExecution\<close> of the reply body) are left out. The field \<open>volume\<close> is
  written \<open>volume_level\<close> and \<open>activeSessions\<close> is written \<open>activeSessions'\<close>.
\<close>

record market_status =
  isOpen :: bool
  activeSessions' :: "string list"
  volume_level :: string

definition getVolumeLevel :: "nat \<Rightarrow> string" where
  "getVolumeLevel hour =
     (if hour \<ge> 12 \<and> hour < 17 then ''high''
      else if hour \<ge> 7 \<and> hour < 9 then ''high''
      else if (hour \<ge> 8 \<and> hour < 17) \<or> (hour \<ge> 0 \<and> hour < 9) then ''medium''
      else ''low'')"

definition getMarketStatus :: "utc_now \<Rightarrow> market_status" where
  "getMarketStatus now =
     (let isWeekend = (dayOfWeek now = 6 \<or> (dayOfWeek now = 0 \<and> hourUTC now < 22));
          isFridayClose = (dayOfWeek now = 5 \<and> hourUTC now \<ge> 22);
          open_now = (\<not> isWeekend \<and> \<not> isFridayClose)
      in \<lparr>isOpen = open_now,
          activeSessions' = (if open_now then [''Global''] else []),
          volume_level = getVolumeLevel (hourUTC now)\<rparr>)"

definition shouldExecuteTrade :: "market_status \<Rightarrow> session \<Rightarrow> bool" where
  "shouldExecuteTrade marketStatus s =
     (if \<not> isOpen marketStatus then False
      else if volume_level marketStatus = ''low'' \<and> avoid_low_volume s then False
      else True)"

definition formatMarketStatus :: "market_status \<Rightarrow> string" where
  "formatMarketStatus st =
     (if \<not> isOpen st then ''Markets Closed''
      else ''Markets Open ('' @ volume_level st @ '' volume)'')"

text \<open>
  The brokerage's REST interface. A candle holds the numbers \<open>parseFloat\<close> and \<open>parseInt\<close>
  read from its strings (NaN when unreadable). An answer has a status line, its text and
  its parsed JSON (\<open>None\<close> when the text is not JSON); \<open>fetch\<close> either resolves with an
  answer or rejects with a message.
\<close>

record candle =
  mid_o :: jsnum
  mid_h :: jsnum
  mid_l :: jsnum
  mid_c :: jsnum
  candle_volume :: jsnum

datatype json_body = CandlesJson "candle list" | OtherJson string

record http_response =
  status :: nat
  statusText :: string
  body_text :: string
  body_json :: "json_body option"

datatype fetch_outcome = Rejects string | Resolves http_response

definition ok :: "http_response \<Rightarrow> bool" where
  "ok r = (200 \<le> status r \<and> status r \<le> 299)"

text \<open>The decimal rendering of a status code inside a template string.\<close>

definition digit :: "nat \<Rightarrow> char" where
  "digit k = ''0123456789'' ! k"

function decimal :: "nat \<Rightarrow> string" where
  "decimal n = (if 10 \<le> n then decimal (n div 10) @ [digit (n mod 10)] else [digit n])"
  by pat_completeness auto
termination
  by (relation "measure (\<lambda>n. n)") auto

text \<open>
  The order of a submission. The two distances are Numbers, quotients computed in
  binary64; they and \<open>units\<close> are sent as their decimal renderings (\<open>toString\<close>), the
  shortest decimal that reads back as the same Number.
\<close>

record order_data =
  order_type :: string
  instrument :: string
  units :: int
  stopLossOnFill :: real
  takeProfitOnFill :: real

datatype request =
    GetCandles string string
  | PostOrder string string order_data

definition baseUrl :: "session \<Rightarrow> string" where
  "baseUrl s =
     (if environment s = ''practice'' then ''https://api-fxpractice.oanda.com''
      else ''https://api-fxtrade.oanda.com'')"

section \<open>Effects of the scheduled executor\<close>

text \<open>
  What a session pipeline returns, and a settled promise of \<open>Promise.allSettled\<close>. A
  thrown \<open>Error\<close> is its message: a computation that may throw returns
  \<open>string + 'a\<close>, with \<open>Inl\<close> for the throw.
\<close>

datatype session_result =
    SKIPPED_MARKET_CONDITIONS string string string string
  | TRADE_EXECUTED string string trade_direction json_body string
  | NO_SIGNAL string string string

datatype settled = Fulfilled session_result | Rejected string

text \<open>
  The \<open>activity\<close> handed to \<open>logTradingActivity\<close> and the row it inserts into
  \<open>trading_logs\<close> (\<open>trade_data\<close> is the activity together with \<open>sessionInfo\<close>: strategy
  name, symbol and timeframe).
\<close>

record activity =
  logType :: string
  message :: string
  action :: "string option"
  signal :: "bool option"
  activity_direction :: "trade_direction option"
  tradeResult :: "json_body option"
  activity_marketStatus :: "string option"
  activity_error :: "string option"
  timestamp :: string

record log_entry =
  log_session_id :: string
  log_user_id :: string
  log_type :: string
  log_message :: string
  trade_data :: activity
  sessionInfo :: "string \<times> string \<times> string"

text \<open>
  A call of the database client returns without error, returns an error object, or
  throws.
\<close>

datatype db_outcome = DbOk | DbError string | DbThrows string

text \<open>The console lines, one constructor for each call site, with the values it prints.\<close>

datatype console_line =
    StartingExecution string
  | MarketStatusLine string
  | MarketsClosedSkipping
  | NoActiveSessionsFound
  | ProcessingSessions nat
  | SessionProcessed nat session_result
  | SessionFailed nat string
  | DatabaseErrorFetching string
  | RetrievedSessions nat
  | ErrorFetchingSessions string
  | UpdatedExecutionTimes nat
  | FailedToUpdateTimes string
  | ProcessingSession string string string
  | SkippingTrade string
  | SignalDetected trade_direction string
  | NoTradingSignals string
  | ErrorProcessingSession string string
  | LoggedActivity string
  | FailedToLog string
  | ErrorLogging string

text \<open>
  Everything a tick does to the outside is an event: a console line, an insert into
  \<open>trading_logs\<close> with its outcome, a request to the brokerage, an update of the
  \<open>last_execution\<close> column of the rows with a given id with its outcome. The pipelines of
  one tick run concurrently and share nothing but these append-only effects; the model
  lists the events session by session.
\<close>

datatype event =
    Console console_line
  | LogInsert log_entry db_outcome
  | BrokerRequest request
  | SessionUpdate string string db_outcome

text \<open>
  The outside world of one tick: the outcome of the database calls, the brokerage's answer
  to the candle request of a session, and its answer to the \<open>n\<close>-th submission of an order
  (\<open>n = 0\<close> is the first).
\<close>

record env =
  select_sessions :: db_outcome
  insert_log :: "log_entry \<Rightarrow> db_outcome"
  update_session :: "string \<Rightarrow> db_outcome"
  candles_fetch :: "session \<Rightarrow> fetch_outcome"
  order_fetch :: "session \<Rightarrow> trade_direction \<Rightarrow> nat \<Rightarrow> fetch_outcome"

definition logTradingActivity :: "env \<Rightarrow> session \<Rightarrow> activity \<Rightarrow> event list" where
  "logTradingActivity e s act =
     (let logEntry = \<lparr>log_session_id = id' s, log_user_id = user_id s,
                       log_type = logType act, log_message = message act,
                       trade_data = act,
                       sessionInfo = (strategy_name s, symbol s, timeframe s)\<rparr>
      in case insert_log e logEntry of
           DbOk \<Rightarrow> [LogInsert logEntry DbOk, Console (LoggedActivity (id' s))]
         | DbError m \<Rightarrow> [LogInsert logEntry (DbError m), Console (FailedToLog m)]
         | DbThrows m \<Rightarrow> [LogInsert logEntry (DbThrows m), Console (ErrorLogging m)])"

definition fetchOANDAMarketData :: "env \<Rightarrow> session \<Rightarrow> (string + market_data) \<times> event list" where
  "fetchOANDAMarketData e s =
     (let req = GetCandles (baseUrl s @ ''/v3/instruments/'' @ symbol s
                              @ ''/candles?count=500&granularity='' @ timeframe s)
                           (oanda_api_key s)
      in (case candles_fetch e s of
            Rejects m \<Rightarrow> Inl m
          | Resolves response \<Rightarrow>
              if \<not> ok response
              then Inl (''OANDA API error: '' @ decimal (status response) @ '' ''
                        @ statusText response)
              else (case body_json response of
                      None \<Rightarrow> Inl ''Unexpected token in JSON''
                    | Some (OtherJson t) \<Rightarrow> Inl ''Cannot read properties of undefined (reading map)''
                    | Some (CandlesJson candles) \<Rightarrow>
                        Inr \<lparr>open' = map mid_o candles,
                             high = map mid_h candles,
                             low = map mid_l candles,
                             close = map mid_c candles,
                             volume = map (\<lambda>c. case candle_volume c of
                                                   None \<Rightarrow> Some 1000
                                                 | Some v \<Rightarrow> if v = 0 then Some 1000 else Some v)
                                          candles\<rparr>),
          [BrokerRequest req]))"

definition orderData :: "session \<Rightarrow> trade_direction \<Rightarrow> order_data" where
  "orderData s d =
     \<lparr>order_type = ''MARKET'',
      instrument = symbol s,
      units = (if d = BUY then 1000 else - 1000),
      stopLossOnFill = binary64 (stop_loss s / 10000),
      takeProfitOnFill = binary64 (take_profit s / 10000)\<rparr>"

text \<open>
  \<open>executeOANDATrade\<close> calls \<open>fetch\<close> once; \<open>broker n\<close> is the answer the brokerage would
  give to the \<open>n\<close>-th submission of this order.
\<close>

definition executeOANDATrade ::
  "(nat \<Rightarrow> fetch_outcome) \<Rightarrow> session \<Rightarrow> trade_direction \<Rightarrow> (string + json_body) \<times> event list" where
  "executeOANDATrade broker s d =
     (let req = PostOrder (baseUrl s @ ''/v3/accounts/'' @ oanda_account_id s @ ''/orders'')
                          (oanda_api_key s) (orderData s d)
      in (case broker 0 of
            Rejects m \<Rightarrow> Inl m
          | Resolves response \<Rightarrow>
              if \<not> ok response
              then Inl (''Trade execution failed: '' @ body_text response)
              else (case body_json response of
                      None \<Rightarrow> Inl ''Unexpected token in JSON''
                    | Some j \<Rightarrow> Inr j),
          [BrokerRequest req]))"

definition direction_name :: "trade_direction \<Rightarrow> string" where
  "direction_name d = (case d of BUY \<Rightarrow> ''BUY'' | SELL \<Rightarrow> ''SELL'')"

text \<open>
  \<open>session_try\<close> is the \<open>try\<close> block of \<open>processTradinSession\<close>; \<open>processTradinSession\<close>
  adds the \<open>catch\<close>, which logs the error and throws it again.
\<close>

definition session_try ::
  "env \<Rightarrow> utc_now \<Rightarrow> market_status \<Rightarrow> session \<Rightarrow> (string + session_result) \<times> event list" where
  "session_try e now marketStatus s =
     (if \<not> shouldExecuteTrade marketStatus s
      then (Inr (SKIPPED_MARKET_CONDITIONS (id' s) (symbol s) (formatMarketStatus marketStatus)
                   (toISOString now)),
            Console (SkippingTrade (symbol s))
            # logTradingActivity e s
                \<lparr>logType = ''info'',
                 message = ''Skipped execution due to market conditions: ''
                           @ formatMarketStatus marketStatus,
                 action = Some ''SKIPPED_MARKET_CONDITIONS'',
                 signal = None, activity_direction = None, tradeResult = None,
                 activity_marketStatus = None, activity_error = None,
                 timestamp = toISOString now\<rparr>)
      else
        (case fetchOANDAMarketData e s of
           (Inl err, ev1) \<Rightarrow> (Inl err, ev1)
         | (Inr marketData, ev1) \<Rightarrow>
             (let signals = executeStrategyLogic (strategy_code s) marketData (reverse_signals s);
                  no_signal =
                    (Inr (NO_SIGNAL (id' s) (symbol s) (toISOString now)),
                     ev1 @ Console (NoTradingSignals (symbol s))
                     # logTradingActivity e s
                         \<lparr>logType = ''info'',
                          message = ''No trading signals detected for '' @ symbol s,
                          action = None, signal = None, activity_direction = None,
                          tradeResult = None, activity_marketStatus = None,
                          activity_error = None, timestamp = toISOString now\<rparr>)
              in if entry signals \<noteq> []
                 then (let latestSignal = last (entry signals)
                       in case (if direction signals = [] then None
                                else last (direction signals)) of
                            None \<Rightarrow> no_signal
                          | Some d \<Rightarrow>
                              if latestSignal
                              then (case executeOANDATrade (order_fetch e s d) s d of
                                      (Inl err, ev2) \<Rightarrow>
                                        (Inl err, ev1 @ Console (SignalDetected d (symbol s)) # ev2)
                                    | (Inr result, ev2) \<Rightarrow>
                                        (Inr (TRADE_EXECUTED (id' s) (symbol s) d result
                                                (formatMarketStatus marketStatus)),
                                         ev1 @ Console (SignalDetected d (symbol s)) # ev2
                                         @ logTradingActivity e s
                                             \<lparr>logType = ''trade'',
                                              message = ''Trade executed: '' @ direction_name d
                                                        @ '' for '' @ symbol s,
                                              action = None, signal = Some latestSignal,
                                              activity_direction = Some d,
                                              tradeResult = Some result,
                                              activity_marketStatus =
                                                Some (formatMarketStatus marketStatus),
                                              activity_error = None,
                                              timestamp = toISOString now\<rparr>))
                              else no_signal)
                 else no_signal)))"

definition processTradinSession ::
  "env \<Rightarrow> utc_now \<Rightarrow> market_status \<Rightarrow> session \<Rightarrow> (string + session_result) \<times> event list" where
  "processTradinSession e now marketStatus s =
     (case session_try e now marketStatus s of
        (Inr v, evs) \<Rightarrow>
          (Inr v, Console (ProcessingSession (symbol s) (timeframe s) (strategy_name s)) # evs)
      | (Inl err, evs) \<Rightarrow>
          (Inl err,
           Console (ProcessingSession (symbol s) (timeframe s) (strategy_name s)) # evs
           @ Console (ErrorProcessingSession (id' s) err)
           # logTradingActivity e s
               \<lparr>logType = ''error'',
                message = ''Session processing error: '' @ err,
                action = None, signal = None, activity_direction = None, tradeResult = None,
                activity_marketStatus = None, activity_error = Some err,
                timestamp = toISOString now\<rparr>))"

definition getActiveTradingSessions :: "env \<Rightarrow> session list \<Rightarrow> session list \<times> event list" where
  "getActiveTradingSessions e tbl =
     (case select_sessions e of
        DbOk \<Rightarrow> (filter is_active tbl, [Console (RetrievedSessions (length (filter is_active tbl)))])
      | DbError m \<Rightarrow> ([], [Console (DatabaseErrorFetching m)])
      | DbThrows m \<Rightarrow> ([], [Console (ErrorFetchingSessions m)]))"

text \<open>
  The loop of \<open>updateSessionExecutionTimes\<close> over the ids: an update that returns an error
  object is ignored, an update that throws ends the loop (the \<open>catch\<close> is outside it).
\<close>

fun update_loop ::
  "env \<Rightarrow> string \<Rightarrow> string list \<Rightarrow> session list \<Rightarrow> string option \<times> event list \<times> session list" where
  "update_loop e ts [] tbl = (None, [], tbl)"
| "update_loop e ts (i # ids) tbl =
     (case update_session e i of
        DbOk \<Rightarrow>
          (case update_loop e ts ids
                  (map (\<lambda>r. if id' r = i then r\<lparr>last_execution := ts\<rparr> else r) tbl) of
             (thrown, evs, tbl') \<Rightarrow> (thrown, SessionUpdate i ts DbOk # evs, tbl'))
      | DbError m \<Rightarrow>
          (case update_loop e ts ids tbl of
             (thrown, evs, tbl') \<Rightarrow> (thrown, SessionUpdate i ts (DbError m) # evs, tbl'))
      | DbThrows m \<Rightarrow> (Some m, [SessionUpdate i ts (DbThrows m)], tbl))"

definition updateSessionExecutionTimes ::
  "env \<Rightarrow> utc_now \<Rightarrow> session list \<Rightarrow> session list \<Rightarrow> event list \<times> session list" where
  "updateSessionExecutionTimes e now sessions tbl =
     (case update_loop e (toISOString now) (map id' sessions) tbl of
        (None, evs, tbl') \<Rightarrow> (evs @ [Console (UpdatedExecutionTimes (length sessions))], tbl')
      | (Some m, evs, tbl') \<Rightarrow> (evs @ [Console (FailedToUpdateTimes m)], tbl'))"

text \<open>
  \<open>Promise.allSettled\<close> over the pipelines: a pipeline that throws settles as
  \<open>Rejected\<close>, and every pipeline's events take place.
\<close>

definition allSettled ::
  "((string + session_result) \<times> event list) list \<Rightarrow> settled list \<times> event list" where
  "allSettled ps =
     (map (\<lambda>p. case fst p of Inl reason \<Rightarrow> Rejected reason | Inr v \<Rightarrow> Fulfilled v) ps,
      concat (map snd ps))"

definition is_fulfilled :: "settled \<Rightarrow> bool" where
  "is_fulfilled r = (case r of Fulfilled v \<Rightarrow> True | Rejected reason \<Rightarrow> False)"

definition report_line :: "nat \<times> settled \<Rightarrow> console_line" where
  "report_line p =
     (case snd p of
        Fulfilled v \<Rightarrow> SessionProcessed (fst p + 1) v
      | Rejected reason \<Rightarrow> SessionFailed (fst p + 1) reason)"

datatype reply_body =
    MarketsClosedSkipped string
  | NoActiveSessions
  | ExecutionCompleted nat nat nat string string

record http_reply =
  statusCode :: nat
  body :: reply_body

record tick =
  response :: http_reply
  events :: "event list"
  table :: "session list"

text \<open>
  The scheduled handler, run at clock reading \<open>now\<close> on the \<open>trading_sessions\<close> table
  \<open>tbl\<close>. No statement of its \<open>try\<close> block throws (every callee catches its own errors
  and \<open>Promise.allSettled\<close> never rejects), so the reply of its \<open>catch\<close>, status 500, has
  no case here.
\<close>

definition handler :: "env \<Rightarrow> utc_now \<Rightarrow> session list \<Rightarrow> tick" where
  "handler e now tbl =
     (let marketStatus = getMarketStatus now;
          ev0 = [Console (StartingExecution (toISOString now)),
                 Console (MarketStatusLine (formatMarketStatus marketStatus))]
      in if \<not> isOpen marketStatus
         then \<lparr>response = \<lparr>statusCode = 200,
                            body = MarketsClosedSkipped (formatMarketStatus marketStatus)\<rparr>,
               events = ev0 @ [Console MarketsClosedSkipping],
               table = tbl\<rparr>
         else
           (case getActiveTradingSessions e tbl of
              (activeSessions, ev1) \<Rightarrow>
                if length activeSessions = 0
                then \<lparr>response = \<lparr>statusCode = 200, body = NoActiveSessions\<rparr>,
                      events = ev0 @ ev1 @ [Console NoActiveSessionsFound],
                      table = tbl\<rparr>
                else
                  (case allSettled (map (processTradinSession e now marketStatus) activeSessions) of
                     (results, ev2) \<Rightarrow>
                       (case updateSessionExecutionTimes e now activeSessions tbl of
                          (ev3, tbl') \<Rightarrow>
                            \<lparr>response =
                               \<lparr>statusCode = 200,
                                body = ExecutionCompleted (length activeSessions)
                                         (length (filter is_fulfilled results))
                                         (length (filter (\<lambda>r. \<not> is_fulfilled r) results))
                                         (formatMarketStatus marketStatus) (toISOString now)\<rparr>,
                             events = ev0 @ ev1
                                      @ Console (ProcessingSessions (length activeSessions)) # ev2
                                      @ map (\<lambda>p. Console (report_line p)) (enumerate 0 results)
                                      @ ev3,
                             table = tbl'\<rparr>))))"

text \<open>
  \<open>ForwardTestingService.stopSession\<close>, the user's action: it clears \<open>is_active\<close> on the
  user's rows, on all of them when no (or an empty) session id is given.
\<close>

definition stopSession ::
  "db_outcome \<Rightarrow> string \<Rightarrow> string option \<Rightarrow> session list \<Rightarrow> string + session list" where
  "stopSession db userId sessionId tbl =
     (case db of
        DbOk \<Rightarrow>
          Inr (map (\<lambda>r. if user_id r = userId
                           \<and> (case sessionId of None \<Rightarrow> True
                               | Some i \<Rightarrow> if i = [] then True else id' r = i)
                        then r\<lparr>is_active := False\<rparr> else r) tbl)
      | DbError m \<Rightarrow> Inl m
      | DbThrows m \<Rightarrow> Inl m)"

text \<open>
  The rows a list of events stores in \<open>trading_logs\<close>, the rows it tries to insert
  (stored or not), the requests it sends, and its lines about settled sessions.
\<close>

definition audit_records :: "event list \<Rightarrow> log_entry list" where
  "audit_records evs =
     concat (map (\<lambda>ev. case ev of LogInsert row DbOk \<Rightarrow> [row] | _ \<Rightarrow> []) evs)"

definition log_inserts :: "event list \<Rightarrow> log_entry list" where
  "log_inserts evs =
     concat (map (\<lambda>ev. case ev of LogInsert row outcome \<Rightarrow> [row] | _ \<Rightarrow> []) evs)"

definition broker_requests :: "event list \<Rightarrow> request list" where
  "broker_requests evs =
     concat (map (\<lambda>ev. case ev of BrokerRequest r \<Rightarrow> [r] | _ \<Rightarrow> []) evs)"

definition session_reports :: "event list \<Rightarrow> console_line list" where
  "session_reports evs =
     concat (map (\<lambda>ev. case ev of
                          Console (SessionProcessed i v) \<Rightarrow> [SessionProcessed i v]
                        | Console (SessionFailed i reason) \<Rightarrow> [SessionFailed i reason]
                        | _ \<Rightarrow> []) evs)"


section \<open>The strategy sandbox\<close>

text \<open>
  Python values and JavaScript values, as far as strategy results are made of them:
  \<open>None\<close>, booleans, numbers, strings, lists and dictionaries with string keys (kept as
  association lists in insertion order). Objects of other types (classes, numpy arrays)
  are not among them. \<open>JsNull\<close> stands for both \<open>null\<close> and \<open>undefined\<close>. \<open>toJs\<close> is the
  conversion of a Pyodide proxy with \<open>dict_converter: Object.fromEntries\<close>.
\<close>

datatype pyval =
    PyNone
  | PyBool bool
  | PyNum jsnum
  | PyStr string
  | PyList "pyval list"
  | PyDict "(string \<times> pyval) list"

datatype jsval =
    JsNull
  | JsBool bool
  | JsNum jsnum
  | JsStr string
  | JsArray "jsval list"
  | JsObject "(string \<times> jsval) list"

fun toJs :: "pyval \<Rightarrow> jsval" where
  "toJs PyNone = JsNull"
| "toJs (PyBool b) = JsBool b"
| "toJs (PyNum x) = JsNum x"
| "toJs (PyStr s) = JsStr s"
| "toJs (PyList xs) = JsArray (map toJs xs)"
| "toJs (PyDict kvs) = JsObject (map (\<lambda>kv. (fst kv, toJs (snd kv))) kvs)"

definition py_truthy :: "pyval \<Rightarrow> bool" where
  "py_truthy v =
     (case v of
        PyNone \<Rightarrow> False
      | PyBool b \<Rightarrow> b
      | PyNum x \<Rightarrow> x \<noteq> Some 0
      | PyStr s \<Rightarrow> s \<noteq> []
      | PyList xs \<Rightarrow> xs \<noteq> []
      | PyDict kvs \<Rightarrow> kvs \<noteq> [])"

definition py_iterable :: "pyval \<Rightarrow> bool" where
  "py_iterable v =
     (case v of PyStr s \<Rightarrow> True | PyList xs \<Rightarrow> True | PyDict kvs \<Rightarrow> True | _ \<Rightarrow> False)"

text \<open>\<open>len\<close>, which raises \<open>TypeError\<close> on a value without length (\<open>None\<close> here).\<close>

definition py_len :: "pyval \<Rightarrow> nat option" where
  "py_len v =
     (case v of
        PyStr s \<Rightarrow> Some (length s)
      | PyList xs \<Rightarrow> Some (length xs)
      | PyDict kvs \<Rightarrow> Some (length kvs)
      | _ \<Rightarrow> None)"

definition py_type :: "pyval \<Rightarrow> string" where
  "py_type v =
     (case v of
        PyNone \<Rightarrow> ''NoneType''
      | PyBool b \<Rightarrow> ''bool''
      | PyNum x \<Rightarrow> ''float''
      | PyStr s \<Rightarrow> ''str''
      | PyList xs \<Rightarrow> ''list''
      | PyDict kvs \<Rightarrow> ''dict'')"



definition js_is_object :: "jsval \<Rightarrow> bool" where
  "js_is_object v = (case v of JsArray xs \<Rightarrow> True | JsObject kvs \<Rightarrow> True | _ \<Rightarrow> False)"

text \<open>
  The all-false result with an error marker, as the Python code of the lightweight setup
  builds it (\<open>py_fallback\<close>) and as the JavaScript code builds it (\<open>fallback\<close>).
\<close>

definition py_fallback :: "nat \<Rightarrow> string \<Rightarrow> pyval" where
  "py_fallback n msg =
     PyDict [(''entry'', PyList (replicate n (PyBool False))),
             (''exit'', PyList (replicate n (PyBool False))),
             (''direction'', PyList (replicate n PyNone)),
             (''error'', PyStr msg)]"

definition fallback :: "nat \<Rightarrow> string \<Rightarrow> jsval" where
  "fallback n msg =
     JsObject [(''entry'', JsArray (replicate n (JsBool False))),
               (''exit'', JsArray (replicate n (JsBool False))),
               (''direction'', JsArray (replicate n JsNull)),
               (''error'', JsStr msg)]"

subsection \<open>\<open>PythonExecutor.executeStrategy\<close>\<close>

text \<open>
  The market data handed to the executor: a field may be missing (\<open>None\<close>).
\<close>

record python_market_data =
  md_open :: "jsnum list option"
  md_high :: "jsnum list option"
  md_low :: "jsnum list option"
  md_close :: "jsnum list option"
  md_volume :: "jsnum list option"

text \<open>
  What the Python call \<open>execute_strategy(js_market_data, js_strategy_code)\<close> does: it
  returns a value, raises an \<open>Exception\<close> with a message, or fails with an error that
  \<open>except Exception\<close> does not catch and \<open>runPython\<close> throws on. The function itself is
  defined by \<open>STRATEGY_EXECUTOR_PYTHON_CODE\<close>, which is not among the sources, so the
  Pyodide runtime is a parameter: for each step that the executor guards with a \<open>try\<close>,
  whether it fails and with which message.
\<close>

datatype py_outcome = PyReturns pyval | PyRaises string | PyFatal string

record pyodide =
  init_error :: "string option"
  set_error :: "string option"
  run_strategy :: "string \<Rightarrow> market_data \<Rightarrow> py_outcome"
  toJs_error :: "string option"

text \<open>
  \<open>plainMarketData\<close>: \<open>Array.from\<close> throws a \<open>TypeError\<close> on a missing field, which only
  the outermost \<open>catch\<close> handles.
\<close>

definition plainMarketData :: "python_market_data \<Rightarrow> string + market_data" where
  "plainMarketData md =
     (case md_open md of None \<Rightarrow> Inl ''undefined is not iterable''
      | Some os \<Rightarrow>
     (case md_high md of None \<Rightarrow> Inl ''undefined is not iterable''
      | Some hs \<Rightarrow>
     (case md_low md of None \<Rightarrow> Inl ''undefined is not iterable''
      | Some ls \<Rightarrow>
     (case md_close md of None \<Rightarrow> Inl ''undefined is not iterable''
      | Some cs \<Rightarrow>
     (case md_volume md of None \<Rightarrow> Inl ''undefined is not iterable''
      | Some vs \<Rightarrow> Inr \<lparr>open' = os, high = hs, low = ls, close = cs, volume = vs\<rparr>)))))"

definition close_length :: "python_market_data \<Rightarrow> nat" where
  "close_length md = (case md_close md of None \<Rightarrow> 0 | Some cs \<Rightarrow> length cs)"

text \<open>
  \<open>runPython\<close> returns the value of the last top-level statement of the code it runs when
  that statement is an expression, and \<open>undefined\<close> otherwise. Each of the two pieces of
  code that the executor runs is one \<open>try\<close> statement: the expressions that close its
  clauses (\<open>result\<close>, \<open>False\<close>, the fallback dictionary) are statements of the clauses,
  not of the top level, and their values are dropped.
\<close>

datatype run_value = NoValue | Value pyval

text \<open>
  The availability check. It binds \<open>result\<close> to whether \<open>execute_strategy\<close> is among the
  globals and prints what it found; being one \<open>try\<close> statement, it leaves no value in
  either case.
\<close>

definition check_snippet :: run_value where
  "check_snippet = NoValue"

text \<open>
  The code that calls the strategy. \<open>js_market_data\<close> is the proxy of a plain JavaScript
  object, which Python cannot subscript: \<open>len(js_market_data["close"])\<close> raises
  \<open>TypeError\<close> wherever it is evaluated. The \<open>try\<close> clause evaluates it when the strategy
  returned \<open>None\<close> or a value that is not a dict. The \<open>except\<close> clause handles that error,
  an exception of the strategy call, and the \<open>TypeError\<close> of the two counting loops of the
  debug output (they iterate over \<open>result['entry']\<close> and \<open>result['direction']\<close> when these
  are truthy); it evaluates the same expression, so its own error leaves \<open>runPython\<close> as a
  JavaScript exception (\<open>Inl\<close>). A returned dict that passes the counting loops is bound
  to \<open>result\<close>, and the statement ends without a value. The text of the Python error is
  abbreviated, and the quotation marks around type names are left out.
\<close>

definition debug_count_error :: "(string \<times> pyval) list \<Rightarrow> string \<Rightarrow> string option" where
  "debug_count_error kvs k =
     (case map_of kvs k of
        None \<Rightarrow> None
      | Some v \<Rightarrow>
          if py_truthy v \<and> \<not> py_iterable v
          then Some (py_type v @ '' object is not iterable'')
          else None)"

definition subscript_error :: string where
  "subscript_error = ''TypeError: pyodide.ffi.JsProxy object is not subscriptable''"

definition except_clause :: "string + run_value" where
  "except_clause = Inl subscript_error"

definition run_snippet :: "py_outcome \<Rightarrow> string + run_value" where
  "run_snippet outcome =
     (case outcome of
        PyFatal m \<Rightarrow> Inl m
      | PyRaises m \<Rightarrow> except_clause
      | PyReturns raw_result \<Rightarrow>
          (case raw_result of
             PyNone \<Rightarrow> except_clause
           | PyDict kvs \<Rightarrow>
               (case debug_count_error kvs ''entry'' of
                  Some m \<Rightarrow> except_clause
                | None \<Rightarrow>
                    (case debug_count_error kvs ''direction'' of
                       Some m \<Rightarrow> except_clause
                     | None \<Rightarrow> Inr NoValue))
           | other \<Rightarrow> except_clause))"

text \<open>
  What \<open>runPython\<close> hands to JavaScript: \<open>undefined\<close> when the code leaves no value or the
  value \<open>None\<close>, a primitive for a boolean, number or string, a proxy for a list or a dict.
  The executor also has cases for a plain object and for another kind of object.
\<close>

datatype python_result =
    Undefined
  | Primitive jsval
  | PlainObject jsval
  | Proxy pyval
  | OtherObject jsval

definition runPython_value :: "run_value \<Rightarrow> python_result" where
  "runPython_value r =
     (case r of
        NoValue \<Rightarrow> Undefined
      | Value v \<Rightarrow>
          (case v of
             PyNone \<Rightarrow> Undefined
           | PyBool b \<Rightarrow> Primitive (JsBool b)
           | PyNum x \<Rightarrow> Primitive (JsNum x)
           | PyStr s \<Rightarrow> Primitive (JsStr s)
           | PyList xs \<Rightarrow> Proxy (PyList xs)
           | PyDict kvs \<Rightarrow> Proxy (PyDict kvs)))"

text \<open>Truthiness and \<open>typeof\<close> of what \<open>runPython\<close> returned.\<close>

definition js_truthy :: "python_result \<Rightarrow> bool" where
  "js_truthy r =
     (case r of
        Undefined \<Rightarrow> False
      | Primitive v \<Rightarrow>
          (case v of
             JsNull \<Rightarrow> False
           | JsBool b \<Rightarrow> b
           | JsNum x \<Rightarrow> x \<noteq> None \<and> x \<noteq> Some 0
           | JsStr s \<Rightarrow> s \<noteq> []
           | _ \<Rightarrow> True)
      | _ \<Rightarrow> True)"

definition js_typeof :: "jsval \<Rightarrow> string" where
  "js_typeof v =
     (case v of
        JsBool b \<Rightarrow> ''boolean''
      | JsNum x \<Rightarrow> ''number''
      | JsStr s \<Rightarrow> ''string''
      | _ \<Rightarrow> ''object'')"

definition final_validation :: "nat \<Rightarrow> jsval \<Rightarrow> jsval" where
  "final_validation n jsResult =
     (if \<not> js_is_object jsResult then fallback n ''Invalid result format after conversion''
      else jsResult)"

text \<open>
  \<open>executeStrategy_try\<close> is the outer \<open>try\<close> block (\<open>Inl\<close>: an exception reaches the outer
  \<open>catch\<close>); \<open>executeStrategy\<close> adds that \<open>catch\<close>. Its result is the promise's: \<open>Inr\<close> when
  it resolves, \<open>Inl\<close> when it rejects.
\<close>

definition executeStrategy_try ::
  "pyodide \<Rightarrow> string \<Rightarrow> python_market_data \<Rightarrow> string + jsval" where
  "executeStrategy_try py code marketData =
     (let n = close_length marketData
      in if n = 0
         then Inr (JsObject [(''entry'', JsArray []), (''exit'', JsArray []),
                             (''direction'', JsArray []),
                             (''error'', JsStr ''Invalid market data: no close prices available'')])
         else
           (case init_error py of
              Some m \<Rightarrow> Inr (fallback n (''Pyodide initialization failed: '' @ m))
            | None \<Rightarrow>
                (case plainMarketData marketData of
                   Inl m \<Rightarrow> Inl m
                 | Inr plain \<Rightarrow>
                     if None \<in> set (close plain)
                     then Inr (fallback n
                                 ''Invalid market data: NaN values detected in close prices'')
                     else
                       (case set_error py of
                          Some m \<Rightarrow> Inr (fallback n (''Failed to set data in Python: '' @ m))
                        | None \<Rightarrow>
                            (let checkResult = runPython_value check_snippet
                             in if \<not> js_truthy checkResult
                                then Inr (fallback n
                                       (''Python environment not properly initialized: ''
                                        @ ''execute_strategy function not found''))
                                else
                                  (case run_snippet (run_strategy py code plain) of
                                     Inl m \<Rightarrow> Inr (fallback n (''Python execution failed: '' @ m))
                                   | Inr v \<Rightarrow>
                                       (case runPython_value v of
                                          Undefined \<Rightarrow>
                                            Inr (fallback n
                                              (''Python execution returned undefined result''
                                               @ '' - check strategy code syntax''))
                                        | PlainObject j \<Rightarrow> Inr (final_validation n j)
                                        | Proxy p \<Rightarrow>
                                            (case toJs_error py of
                                               Some m \<Rightarrow>
                                                 Inr (fallback n
                                                        (''Result conversion failed: '' @ m))
                                             | None \<Rightarrow> Inr (final_validation n (toJs p)))
                                        | OtherObject j \<Rightarrow> Inr (final_validation n j)
                                        | Primitive v \<Rightarrow>
                                            Inr (fallback n
                                              (''Unexpected Python result type: ''
                                               @ js_typeof v)))))))))"

definition executeStrategy ::
  "pyodide \<Rightarrow> string \<Rightarrow> python_market_data \<Rightarrow> string + jsval" where
  "executeStrategy py code marketData =
     (case executeStrategy_try py code marketData of
        Inr r \<Rightarrow> Inr r
      | Inl m \<Rightarrow>
          Inr (fallback (close_length marketData) (''Critical execution error: '' @ m)))"


subsection \<open>\<open>execute_strategy\<close> of the lightweight setup\<close>

text \<open>
  \<open>exec(strategy_code, globals(), local_vars)\<close> either raises or leaves the dictionary
  \<open>local_vars\<close>; which of the two, and with which bindings, is the Python interpreter's
  answer to the strategy code and is a parameter here.
\<close>

datatype exec_outcome = ExecRaises string | ExecLocals "(string \<times> pyval) list"

definition py_lower :: "string \<Rightarrow> string" where
  "py_lower s =
     map (\<lambda>c. if 65 \<le> (of_char c :: nat) \<and> (of_char c :: nat) \<le> 90
               then char_of ((of_char c :: nat) + 32) else c) s"

text \<open>The loop that looks for a non-empty list bound to one of four signal names.\<close>

fun find_signals :: "(string \<times> pyval) list \<Rightarrow> pyval option" where
  "find_signals [] = None"
| "find_signals (kv # rest) =
     (case snd kv of
        PyList xs \<Rightarrow>
          if xs \<noteq> [] \<and> py_lower (fst kv) \<in> set [''buy_signals'', ''sell_signals'', ''signals'', ''entries'']
          then Some (PyList xs)
          else find_signals rest
      | _ \<Rightarrow> find_signals rest)"

text \<open>
  \<open>len(data.get('close', [])) if isinstance(data, dict) else 100\<close>; \<open>None\<close> when \<open>len\<close>
  raises.
\<close>

definition data_length :: "pyval \<Rightarrow> nat option" where
  "data_length data =
     (case data of
        PyDict kvs \<Rightarrow> (case map_of kvs ''close'' of None \<Rightarrow> Some 0 | Some v \<Rightarrow> py_len v)
      | _ \<Rightarrow> Some 100)"

text \<open>
  The dictionary returned when the strategy left no \<open>result\<close>: \<open>exit\<close> and \<open>direction\<close>
  are padded to \<open>len(entry)\<close> when they are falsy; \<open>len\<close> raises \<open>TypeError\<close> on an
  \<open>entry\<close> without length (the quotation marks of Python's message are left out).
\<close>

definition padded :: "pyval \<Rightarrow> pyval \<Rightarrow> pyval \<Rightarrow> string + pyval" where
  "padded entry_v exit_v direction_v =
     (if py_truthy exit_v \<and> py_truthy direction_v
      then Inr (PyDict [(''entry'', entry_v), (''exit'', exit_v), (''direction'', direction_v)])
      else
        (case py_len entry_v of
           None \<Rightarrow> Inl (''object of type '' @ py_type entry_v @ '' has no len()'')
         | Some k \<Rightarrow>
             Inr (PyDict
                    [(''entry'', entry_v),
                     (''exit'', if py_truthy exit_v then exit_v
                                else PyList (replicate k (PyBool False))),
                     (''direction'', if py_truthy direction_v then direction_v
                                     else PyList (replicate k PyNone))])))"

definition execute_strategy_try :: "exec_outcome \<Rightarrow> pyval \<Rightarrow> string + pyval" where
  "execute_strategy_try outcome data =
     (case outcome of
        ExecRaises m \<Rightarrow> Inl m
      | ExecLocals local_vars \<Rightarrow>
          (case map_of local_vars ''result'' of
             Some result \<Rightarrow> Inr result
           | None \<Rightarrow>
               (let entry_v = (case map_of local_vars ''entry'' of
                                 Some v \<Rightarrow> v | None \<Rightarrow> PyList []);
                    exit_v = (case map_of local_vars ''exit'' of
                                Some v \<Rightarrow> v | None \<Rightarrow> PyList []);
                    direction_v =
                      (case map_of local_vars ''direction'' of
                         Some v \<Rightarrow> v
                       | None \<Rightarrow> (case map_of local_vars ''trade_direction'' of
                                    Some v \<Rightarrow> v | None \<Rightarrow> PyList []))
                in if \<not> py_truthy entry_v \<and> \<not> py_truthy exit_v \<and> \<not> py_truthy direction_v
                   then
                     (let found = (case find_signals local_vars of
                                     Some v \<Rightarrow> v | None \<Rightarrow> entry_v)
                      in if \<not> py_truthy found
                         then (case data_length data of
                                 None \<Rightarrow> Inl ''object has no len()''
                               | Some n \<Rightarrow>
                                   padded (PyList (replicate n (PyBool False)))
                                          (PyList (replicate n (PyBool False)))
                                          (PyList (replicate n PyNone)))
                         else padded found exit_v direction_v)
                   else padded entry_v exit_v direction_v)))"

text \<open>
  The \<open>except\<close> clause builds the fallback from the length of \<open>data['close']\<close>; an error
  raised there leaves the function (\<open>Inl\<close>).
\<close>

definition execute_strategy :: "(string \<Rightarrow> pyval \<Rightarrow> exec_outcome) \<Rightarrow> string \<Rightarrow> pyval \<Rightarrow> string + pyval" where
  "execute_strategy interpreter strategy_code' data =
     (case execute_strategy_try (interpreter strategy_code' data) data of
        Inr v \<Rightarrow> Inr v
      | Inl m \<Rightarrow>
          (case data_length data of
             None \<Rightarrow> Inl ''object has no len()''
           | Some n \<Rightarrow> Inr (py_fallback n m)))"


section \<open>Vocabulary of the properties and sample inputs\<close>

definition settle :: "string + session_result \<Rightarrow> settled" where
  "settle r = (case r of Inl reason \<Rightarrow> Rejected reason | Inr v \<Rightarrow> Fulfilled v)"

text \<open>The \<open>logType\<close> under which a pipeline logs its outcome.\<close>

definition outcome_log_type :: "string + session_result \<Rightarrow> string" where
  "outcome_log_type r =
     (case r of
        Inl reason \<Rightarrow> ''error''
      | Inr (TRADE_EXECUTED i sy d res ms) \<Rightarrow> ''trade''
      | Inr (SKIPPED_MARKET_CONDITIONS i sy re ts) \<Rightarrow> ''info''
      | Inr (NO_SIGNAL i sy ts) \<Rightarrow> ''info'')"

definition session_row :: "session \<Rightarrow> activity \<Rightarrow> log_entry" where
  "session_row s act =
     \<lparr>log_session_id = id' s, log_user_id = user_id s, log_type = logType act,
      log_message = message act, trade_data = act,
      sessionInfo = (strategy_name s, symbol s, timeframe s)\<rparr>"

definition sample_session :: session where
  "sample_session =
     \<lparr>id' = ''session-1'', user_id = ''user-123'', strategy_id = ''strategy-1'',
      strategy_name = ''EMA Crossover Strategy'',
      strategy_code = ''strategy_logic(data)'', symbol = ''EUR_USD'', timeframe = ''M5'',
      oanda_account_id = ''account-id'', oanda_api_key = ''api-key'',
      environment = ''practice'', is_active = True,
      last_execution = ''2024-01-01T00:00:00.000Z'',
      risk_per_trade = 2, stop_loss = 40, take_profit = 80, max_position_size = 100000,
      reverse_signals = False, avoid_low_volume = False\<rparr>"


definition unavailable :: http_response where
  "unavailable = \<lparr>status = 503, statusText = ''Service Unavailable'',
                   body_text = ''Service Unavailable'', body_json = None\<rparr>"

definition order_created :: http_response where
  "order_created = \<lparr>status = 200, statusText = ''OK'',
                     body_text = ''orderFillTransaction'',
                     body_json = Some (OtherJson ''orderFillTransaction'')\<rparr>"

text \<open>A brokerage that answers 503 to the first three submissions and 200 to the fourth.\<close>

definition flaky_broker :: "nat \<Rightarrow> fetch_outcome" where
  "flaky_broker n = (if n < 3 then Resolves unavailable else Resolves order_created)"


definition no_candles :: http_response where
  "no_candles = \<lparr>status = 200, statusText = ''OK'', body_text = ''candles'',
                  body_json = Some (CandlesJson [])\<rparr>"

text \<open>
  A tick whose database calls succeed, whose brokerage refuses the candle request of
  \<open>session-1\<close> and answers every other session with no candles.
\<close>

definition sample_env :: env where
  "sample_env =
     \<lparr>select_sessions = DbOk,
      insert_log = (\<lambda>row. DbOk),
      update_session = (\<lambda>i. DbOk),
      candles_fetch = (\<lambda>s. if id' s = ''session-1'' then Rejects ''network down''
                            else Resolves no_candles),
      order_fetch = (\<lambda>s d n. Resolves order_created)\<rparr>"

definition second_session :: session where
  "second_session = sample_session\<lparr>id' := ''session-2''\<rparr>"

definition monday_morning :: utc_now where
  "monday_morning = \<lparr>dayOfWeek = 1, hourUTC = 10, toISOString = ''2024-01-08T10:00:00.000Z''\<rparr>"

definition saturday_noon :: utc_now where
  "saturday_noon = \<lparr>dayOfWeek = 6, hourUTC = 12, toISOString = ''2024-01-06T12:00:00.000Z''\<rparr>"


definition two_bars :: python_market_data where
  "two_bars = \<lparr>md_open = Some [Some 1, Some 2], md_high = Some [Some 1, Some 2],
               md_low = Some [Some 1, Some 2], md_close = Some [Some 1, Some 2],
               md_volume = Some [Some 1000, Some 1000]\<rparr>"

definition two_bars_plain :: market_data where
  "two_bars_plain = \<lparr>open' = [Some 1, Some 2], high = [Some 1, Some 2], low = [Some 1, Some 2],
                     close = [Some 1, Some 2], volume = [Some 1000, Some 1000]\<rparr>"

text \<open>
  A runtime in which every guarded step succeeds and the strategy call would return \<open>v\<close>.
\<close>

definition sandbox_returning :: "pyval \<Rightarrow> pyodide" where
  "sandbox_returning v =
     \<lparr>init_error = None, set_error = None,
      run_strategy = (\<lambda>code plain. PyReturns v), toJs_error = None\<rparr>"

definition well_formed_dict :: pyval where
  "well_formed_dict =
     PyDict [(''entry'', PyList [PyBool True, PyBool False]),
             (''exit'', PyList [PyBool False, PyBool False]),
             (''direction'', PyList [PyStr ''BUY'', PyNone])]"








section \<open>Properties of the moving averages\<close>

lemma length_ema_loop: "length (ema_loop m prev xs) = length xs"
  by (induction xs arbitrary: prev) (simp_all add: Let_def)

lemma ema_loop_nth:
  "i < length xs \<Longrightarrow>
   ema_loop m prev xs ! i =
     js_add (js_mul (xs ! i) (Some m))
            (js_mul (if i = 0 then prev else ema_loop m prev xs ! (i - 1)) (Some (1 - m)))"
proof (induction xs arbitrary: prev i)
  case Nil
  then show ?case by simp
next
  case (Cons x xs)
  show ?case
  proof (cases i)
    case 0
    then show ?thesis by (simp add: Let_def)
  next
    case (Suc j)
    with Cons.prems have "j < length xs" by simp
    from Cons.IH[OF this] Suc show ?thesis
      by (cases j) (simp_all add: Let_def)
  qed
qed

lemma ema_loop_append:
  "ema_loop m prev (xs @ ys) =
     ema_loop m prev xs @ ema_loop m (last (prev # ema_loop m prev xs)) ys"
  by (induction xs arbitrary: prev) (simp_all add: Let_def)

lemma ema_loop_flat: "ema_loop m (Some c) (replicate n (Some c)) = replicate n (Some c)"
  by (induction n) (simp_all add: Let_def js_add_def js_mul_def algebra_simps)

lemma py_ema_loop_no_nan:
  "None \<notin> set xs \<Longrightarrow> py_ema_loop m prev xs = ema_loop m prev xs"
  by (induction xs arbitrary: prev) (auto simp add: Let_def)

lemma ema_no_nan:
  assumes "data \<noteq> []" and "0 < period" and "None \<notin> set data"
  shows "ema data period = calculateEMA data (nat period)"
proof -
  from assms(1) obtain x xs where d: "data = x # xs"
    by (cases data) auto
  with assms(3) obtain y where x: "x = Some y" and xs: "None \<notin> set xs"
    by (cases x) auto
  have "real_of_int period = real (nat period)" using assms(2) by simp
  with d x xs assms(2) show ?thesis
    by (simp add: ema_def calculateEMA_def py_ema_loop_no_nan)
qed

lemma sample_ema:
  "calculateEMA sample_close 2 =
     [Some (11 / 10), Some (83 / 75), Some (251 / 225), Some (1483 / 1350), Some (4399 / 4050)]"
  by (simp add: calculateEMA_def sample_close_def js_add_def js_mul_def)

text \<open>
  The sample series of C9 with the values the claim lists: at index 3 the recurrence
  gives \<open>1483 / 1350\<close> (1.0985...), which is 0.0067 away from the listed 1.1052, and at
  index 4 it gives \<open>4399 / 4050\<close> (1.0862...), 0.0106 away from the listed 1.0968.
\<close>

theorem calculateEMA_sample_counterexample:
  "\<not> list_all2 (within_tol (1 / 1000))
        [110 / 100, 11067 / 10000, 11156 / 10000, 11052 / 10000, 10968 / 10000]
        (calculateEMA sample_close 2)"
  by (simp add: sample_ema within_tol_def)

text \<open>
  C9 (amended). \<open>calculateEMA\<close> computes the recurrence
  \<open>ema[i] = data[i] * m + ema[i - 1] * (1 - m)\<close> with \<open>m = 2 / (period + 1)\<close>, seeded at
  the first sample; the sandbox helper \<open>TechnicalAnalysis.ema\<close> computes the same list on
  every non-empty series without NaN and a positive period. For close =
  [1.10, 1.11, 1.12, 1.09, 1.08] and period 2 both yield
  [1.10, 1.1067, 1.1156, 1.0985, 1.0862] within 1e-3 at every index.
\<close>

theorem calculateEMA_recurrence:
  "(data \<noteq> [] \<longrightarrow>
      length (calculateEMA data period) = length data \<and>
      calculateEMA data period ! 0 = data ! 0 \<and>
      (\<forall>i. 0 < i \<and> i < length data \<longrightarrow>
         calculateEMA data period ! i =
           js_add (js_mul (data ! i) (Some (2 / (real period + 1))))
                  (js_mul (calculateEMA data period ! (i - 1))
                          (Some (1 - 2 / (real period + 1))))))
   \<and> (data \<noteq> [] \<and> None \<notin> set data \<and> 0 < p \<longrightarrow> ema data p = calculateEMA data (nat p))
   \<and> list_all2 (within_tol (1 / 1000))
        [110 / 100, 11067 / 10000, 11156 / 10000, 10985 / 10000, 10862 / 10000]
        (calculateEMA sample_close 2)
   \<and> ema sample_close 2 = calculateEMA sample_close 2"
proof (intro conjI impI allI)
  assume ne: "data \<noteq> []"
  then obtain x xs where d: "data = x # xs" by (cases data) auto
  show "length (calculateEMA data period) = length data"
    by (simp add: d calculateEMA_def length_ema_loop)
  show "calculateEMA data period ! 0 = data ! 0"
    by (simp add: d calculateEMA_def)
  fix i assume i: "0 < i \<and> i < length data"
  then obtain j where j: "i = Suc j" by (cases i) auto
  with i d have jl: "j < length xs" by simp
  show "calculateEMA data period ! i =
           js_add (js_mul (data ! i) (Some (2 / (real period + 1))))
                  (js_mul (calculateEMA data period ! (i - 1))
                          (Some (1 - 2 / (real period + 1))))"
    using ema_loop_nth[OF jl, of "2 / (real period + 1)" x]
    by (cases j) (simp_all add: d j calculateEMA_def)
next
  assume "data \<noteq> [] \<and> None \<notin> set data \<and> 0 < p"
  then show "ema data p = calculateEMA data (nat p)" by (simp add: ema_no_nan)
next
  show "list_all2 (within_tol (1 / 1000))
        [110 / 100, 11067 / 10000, 11156 / 10000, 10985 / 10000, 10862 / 10000]
        (calculateEMA sample_close 2)"
    by (simp add: sample_ema within_tol_def)
next
  have "ema sample_close 2 = calculateEMA sample_close (nat 2)"
    by (rule ema_no_nan) (simp_all add: sample_close_def)
  then show "ema sample_close 2 = calculateEMA sample_close 2" by simp
qed

theorem calculateEMA_recurrence_witness:
  "sample_close \<noteq> [] \<and> 0 < (3::nat) \<and> 3 < length sample_close \<and>
   calculateEMA sample_close 2 ! 3 =
     js_add (js_mul (sample_close ! 3) (Some (2 / 3)))
            (js_mul (calculateEMA sample_close 2 ! 2) (Some (1 / 3)))
   \<and> None \<notin> set sample_close \<and> ema sample_close 2 = calculateEMA sample_close (nat 2)"
proof -
  have ne: "sample_close \<noteq> []" and len: "length sample_close = 5"
    and nn: "None \<notin> set sample_close"
    by (simp_all add: sample_close_def)
  from calculateEMA_recurrence[of sample_close 2 2] ne len nn show ?thesis by simp
qed

section \<open>Properties of the built-in strategy\<close>

text \<open>
  C6. For any two strategy source-code strings and any fixed market data and
  reverse-signals flag, \<open>executeStrategyLogic\<close> returns the same entry, exit and direction
  arrays: the session's strategy code is never read, the signals are those of the
  built-in EMA(21)/EMA(55) crossover.
\<close>

theorem executeStrategyLogic_ignores_strategy_code:
  "executeStrategyLogic code1 marketData reverseSignals =
   executeStrategyLogic code2 marketData reverseSignals"
  by (simp add: executeStrategyLogic_def)

lemma bar_signal_reverse:
  "bar_signal e21 e55 True i =
     (fst (bar_signal e21 e55 False i), fst (snd (bar_signal e21 e55 False i)),
      map_option swap_direction (snd (snd (bar_signal e21 e55 False i))))"
  by (auto simp add: bar_signal_def Let_def swap_direction_def js_gt_def js_lt_def
           split: option.splits)

lemma crossing_ema:
  "calculateEMA crossing_close p =
     replicate 56 (Some 1) @ [Some (2 * (2 / (real p + 1)) + (1 - 2 / (real p + 1)))]"
proof -
  have h: "crossing_close = Some 1 # (replicate 55 (Some 1) @ [Some 2])"
    by (simp add: crossing_close_def numeral_eq_Suc)
  have r: "replicate 56 (Some (1::real)) = Some 1 # replicate 55 (Some 1)"
    by (simp add: numeral_eq_Suc)
  show ?thesis unfolding h r
    by (simp add: calculateEMA_def ema_loop_append ema_loop_flat Let_def js_add_def js_mul_def)
qed

lemma crossing_direction:
  "direction (executeStrategyLogic code
      \<lparr>open' = [], high = [], low = [], close = crossing_close, volume = []\<rparr> False) ! 56
   = Some BUY"
proof -
  have len: "length crossing_close = 57" by (simp add: crossing_close_def)
  show ?thesis
    by (simp add: executeStrategyLogic_def Let_def len crossing_ema bar_signal_def nth_append
          js_gt_def js_le_def js_lt_def js_ge_def del: upt_Suc)
qed

text \<open>
  C8. At every bar, evaluating with \<open>reverseSignals = true\<close> yields the entry flag of the
  evaluation with \<open>reverseSignals = false\<close> and the swapped direction: BUY becomes SELL,
  SELL becomes BUY, and a bar without direction stays without.
\<close>

theorem reverseSignals_swaps_direction:
  "entry (executeStrategyLogic code marketData True) =
     entry (executeStrategyLogic code marketData False) \<and>
   direction (executeStrategyLogic code marketData True) =
     map (map_option swap_direction) (direction (executeStrategyLogic code marketData False))"
  by (simp add: executeStrategyLogic_def Let_def bar_signal_reverse)

theorem reverseSignals_swaps_direction_witness:
  "direction (executeStrategyLogic []
      \<lparr>open' = [], high = [], low = [], close = crossing_close, volume = []\<rparr> False) ! 56
     = Some BUY \<and>
   direction (executeStrategyLogic []
      \<lparr>open' = [], high = [], low = [], close = crossing_close, volume = []\<rparr> True) ! 56
     = Some SELL"
proof -
  let ?md = "\<lparr>open' = [], high = [], low = [], close = crossing_close, volume = []\<rparr>"
  have len: "length (direction (executeStrategyLogic [] ?md False)) = 57"
    by (simp add: executeStrategyLogic_def crossing_close_def Let_def)
  from reverseSignals_swaps_direction[of "[]" ?md] crossing_direction[of "[]"] len
  show ?thesis by (simp add: swap_direction_def)
qed

section \<open>Properties of order submission\<close>
















text \<open>
  The scenario of C4: the brokerage answers 503 three times and then 200. The order is
  submitted once, the first 503 makes the call throw, and the fourth answer is never
  asked for.
\<close>

theorem executeOANDATrade_no_retry_counterexample:
  "fst (executeOANDATrade flaky_broker sample_session BUY) =
     Inl ''Trade execution failed: Service Unavailable'' \<and>
   length (broker_requests (snd (executeOANDATrade flaky_broker sample_session BUY))) = 1"
  by (simp add: executeOANDATrade_def flaky_broker_def unavailable_def ok_def
        broker_requests_def Let_def)

text \<open>
  C4 (amended). \<open>executeOANDATrade\<close> submits the order exactly once and its result depends
  on the first answer alone: an answer that is not OK, whatever its status (503 included),
  makes the call throw \<open>Trade execution failed\<close> with the answer's text, a rejected
  \<open>fetch\<close> throws its own message, and an OK answer with a JSON body is returned. No
  failure of any class is retried.
\<close>

theorem executeOANDATrade_single_attempt:
  "length (broker_requests (snd (executeOANDATrade broker s d))) = 1 \<and>
   executeOANDATrade broker s d = executeOANDATrade (\<lambda>n. broker 0) s d \<and>
   (\<forall>response. broker 0 = Resolves response \<and> \<not> ok response \<longrightarrow>
      fst (executeOANDATrade broker s d)
        = Inl (''Trade execution failed: '' @ body_text response)) \<and>
   (\<forall>m. broker 0 = Rejects m \<longrightarrow> fst (executeOANDATrade broker s d) = Inl m) \<and>
   (\<forall>response j. broker 0 = Resolves response \<and> ok response \<and> body_json response = Some j \<longrightarrow>
      fst (executeOANDATrade broker s d) = Inr j)"
  by (simp add: executeOANDATrade_def broker_requests_def Let_def)

theorem executeOANDATrade_single_attempt_witness:
  "flaky_broker 0 = Resolves unavailable \<and> \<not> ok unavailable \<and>
   fst (executeOANDATrade flaky_broker sample_session SELL)
     = Inl (''Trade execution failed: '' @ body_text unavailable) \<and>
   fst (executeOANDATrade (\<lambda>n. Rejects ''network down'') sample_session SELL)
     = Inl ''network down'' \<and>
   ok order_created \<and> body_json order_created = Some (OtherJson ''orderFillTransaction'') \<and>
   fst (executeOANDATrade (\<lambda>n. Resolves order_created) sample_session SELL)
     = Inr (OtherJson ''orderFillTransaction'')"
proof -
  have a: "flaky_broker 0 = Resolves unavailable" by (simp add: flaky_broker_def)
  have b: "\<not> ok unavailable" by (simp add: ok_def unavailable_def)
  have c: "ok order_created" by (simp add: ok_def order_created_def)
  have d: "body_json order_created = Some (OtherJson ''orderFillTransaction'')"
    by (simp add: order_created_def)
  from executeOANDATrade_single_attempt[of flaky_broker sample_session SELL] a b
  have 1: "fst (executeOANDATrade flaky_broker sample_session SELL)
             = Inl (''Trade execution failed: '' @ body_text unavailable)"
    by blast
  from executeOANDATrade_single_attempt[of "\<lambda>n. Rejects ''network down''" sample_session SELL]
  have 2: "fst (executeOANDATrade (\<lambda>n. Rejects ''network down'') sample_session SELL)
             = Inl ''network down''"
    by blast
  from executeOANDATrade_single_attempt[of "\<lambda>n. Resolves order_created" sample_session SELL] c d
  have 3: "fst (executeOANDATrade (\<lambda>n. Resolves order_created) sample_session SELL)
             = Inr (OtherJson ''orderFillTransaction'')"
    by blast
  from a b c d 1 2 3 show ?thesis by simp
qed

section \<open>Properties of a tick\<close>

subsection \<open>Market closed\<close>

lemma saturday_closed: "dayOfWeek now = 6 \<Longrightarrow> \<not> isOpen (getMarketStatus now)"
  by (simp add: getMarketStatus_def Let_def)

text \<open>
  A tick on a Saturday at noon: it prints three console lines, none of which names
  \<open>SKIPPED_MARKET_CONDITIONS\<close>, and it neither issues nor stores an insert into
  \<open>trading_logs\<close>, so the number of audit records it emits is not one.
\<close>

theorem handler_market_closed_counterexample:
  "events (handler sample_env saturday_noon [sample_session]) =
     [Console (StartingExecution ''2024-01-06T12:00:00.000Z''),
      Console (MarketStatusLine ''Markets Closed''),
      Console MarketsClosedSkipping] \<and>
   length (log_inserts (events (handler sample_env saturday_noon [sample_session]))) \<noteq> 1 \<and>
   length (audit_records (events (handler sample_env saturday_noon [sample_session]))) \<noteq> 1"
  by (simp add: handler_def getMarketStatus_def saturday_noon_def Let_def formatMarketStatus_def
        log_inserts_def audit_records_def)

text \<open>
  C3 (amended). At every tick at which the market is closed (in particular at any time
  on a Saturday) the scheduler runs no session pipeline: it sends no request to the
  brokerage, inserts no record into the audit log and leaves the session table as it is.
  It prints the console line that the markets are closed and answers 200 with the message
  that the execution was skipped.
\<close>

theorem handler_market_closed:
  "(dayOfWeek now = 6 \<longrightarrow> \<not> isOpen (getMarketStatus now)) \<and>
   (\<not> isOpen (getMarketStatus now) \<longrightarrow>
      handler e now tbl =
        \<lparr>response = \<lparr>statusCode = 200, body = MarketsClosedSkipped ''Markets Closed''\<rparr>,
         events = [Console (StartingExecution (toISOString now)),
                   Console (MarketStatusLine ''Markets Closed''),
                   Console MarketsClosedSkipping],
         table = tbl\<rparr> \<and>
      broker_requests (events (handler e now tbl)) = [] \<and>
      log_inserts (events (handler e now tbl)) = [] \<and>
      audit_records (events (handler e now tbl)) = [])"
  by (simp add: saturday_closed handler_def Let_def formatMarketStatus_def broker_requests_def
        log_inserts_def audit_records_def)

theorem handler_market_closed_witness:
  "dayOfWeek saturday_noon = 6 \<and> \<not> isOpen (getMarketStatus saturday_noon) \<and>
   response (handler sample_env saturday_noon [sample_session, second_session])
     = \<lparr>statusCode = 200, body = MarketsClosedSkipped ''Markets Closed''\<rparr> \<and>
   table (handler sample_env saturday_noon [sample_session, second_session])
     = [sample_session, second_session] \<and>
   broker_requests (events (handler sample_env saturday_noon [sample_session, second_session])) = []"
proof -
  have d: "dayOfWeek saturday_noon = 6" by (simp add: saturday_noon_def)
  from handler_market_closed[of saturday_noon sample_env "[sample_session, second_session]"] d
  show ?thesis by (simp add: broker_requests_def)
qed


subsection \<open>The session table\<close>

lemma update_loop_frame:
  "update_loop e ts ids tbl = (thrown, evs, tbl') \<Longrightarrow>
   map (\<lambda>r. r\<lparr>last_execution := x\<rparr>) tbl' = map (\<lambda>r. r\<lparr>last_execution := x\<rparr>) tbl"
proof (induction ids arbitrary: tbl thrown evs tbl')
  case Nil
  then show ?case by simp
next
  case (Cons i ids)
  show ?case
  proof (cases "update_session e i")
    case DbOk
    obtain t2 ev2 tb2 where r:
      "update_loop e ts ids
         (map (\<lambda>r. if id' r = i then r\<lparr>last_execution := ts\<rparr> else r) tbl) = (t2, ev2, tb2)"
      by (cases "update_loop e ts ids
                   (map (\<lambda>r. if id' r = i then r\<lparr>last_execution := ts\<rparr> else r) tbl)") auto
    with Cons.prems DbOk have "tb2 = tbl'" by simp
    with Cons.IH[OF r] show ?thesis by (simp add: comp_def if_distrib cong: if_cong)
  next
    case (DbError m)
    obtain t2 ev2 tb2 where r: "update_loop e ts ids tbl = (t2, ev2, tb2)"
      by (cases "update_loop e ts ids tbl") auto
    with Cons.prems DbError have "tb2 = tbl'" by simp
    with Cons.IH[OF r] show ?thesis by simp
  next
    case (DbThrows m)
    with Cons.prems show ?thesis by simp
  qed
qed

lemma handler_frame:
  "map (\<lambda>r. r\<lparr>last_execution := x\<rparr>) (table (handler e now tbl))
     = map (\<lambda>r. r\<lparr>last_execution := x\<rparr>) tbl"
proof -
  obtain thrown evs tbl' where u:
    "update_loop e (toISOString now) (map id' (fst (getActiveTradingSessions e tbl))) tbl
       = (thrown, evs, tbl')"
    by (cases "update_loop e (toISOString now) (map id' (fst (getActiveTradingSessions e tbl))) tbl") auto
  from update_loop_frame[OF u]
  have f: "map (\<lambda>r. r\<lparr>last_execution := x\<rparr>) tbl' = map (\<lambda>r. r\<lparr>last_execution := x\<rparr>) tbl" .
  show ?thesis
    using u f
    by (cases thrown)
       (auto simp add: handler_def Let_def updateSessionExecutionTimes_def split: prod.splits)
qed

lemma frame_field:
  assumes "map (\<lambda>r. r\<lparr>last_execution := x\<rparr>) a = map (\<lambda>r. r\<lparr>last_execution := x\<rparr>) b"
    and "\<And>r. f (r\<lparr>last_execution := x\<rparr>) = f r"
  shows "map f a = map f b"
proof -
  from assms(1)
  have "map f (map (\<lambda>r. r\<lparr>last_execution := x\<rparr>) a)
          = map f (map (\<lambda>r. r\<lparr>last_execution := x\<rparr>) b)"
    by simp
  with assms(2) show ?thesis by (simp add: comp_def)
qed

lemma stopSession_frame:
  "stopSession db userId sessionId tbl = Inr tbl' \<Longrightarrow>
   map (\<lambda>r. r\<lparr>is_active := False\<rparr>) tbl' = map (\<lambda>r. r\<lparr>is_active := False\<rparr>) tbl"
  by (cases db) (auto simp add: stopSession_def comp_def)

lemma handler_open_table:
  assumes "isOpen (getMarketStatus now)"
    and "getActiveTradingSessions e tbl = (act, ev1)"
    and "act \<noteq> []"
    and "updateSessionExecutionTimes e now act tbl = (ev3, tbl')"
  shows "table (handler e now tbl) = tbl'"
  using assms by (simp add: handler_def Let_def split: prod.split)

lemma monday_open: "isOpen (getMarketStatus monday_morning)"
  by (simp add: getMarketStatus_def monday_morning_def Let_def)

lemma monday_iso: "toISOString monday_morning = ''2024-01-08T10:00:00.000Z''"
  by (simp add: monday_morning_def)

lemma monday_format:
  "formatMarketStatus (getMarketStatus monday_morning) = ''Markets Open (medium volume)''"
  by (simp add: formatMarketStatus_def getMarketStatus_def monday_morning_def Let_def
        getVolumeLevel_def)

lemma sample_active:
  "fst (getActiveTradingSessions sample_env [sample_session, second_session])
     = [sample_session, second_session]"
  by (simp add: getActiveTradingSessions_def sample_env_def sample_session_def
        second_session_def)

lemma sample_first_fails:
  "fst (processTradinSession sample_env monday_morning (getMarketStatus monday_morning)
          sample_session) = Inl ''network down''"
  by (simp add: processTradinSession_def session_try_def shouldExecuteTrade_def monday_open
        fetchOANDAMarketData_def sample_env_def sample_session_def Let_def)

lemma sample_second_no_signal:
  "fst (processTradinSession sample_env monday_morning (getMarketStatus monday_morning)
          second_session)
     = Inr (NO_SIGNAL ''session-2'' ''EUR_USD'' ''2024-01-08T10:00:00.000Z'')"
  by (simp add: processTradinSession_def session_try_def shouldExecuteTrade_def monday_open
        fetchOANDAMarketData_def sample_env_def sample_session_def second_session_def Let_def
        no_candles_def ok_def executeStrategyLogic_def monday_iso)

lemma sample_table:
  "table (handler sample_env monday_morning [sample_session, second_session]) =
     [sample_session\<lparr>last_execution := ''2024-01-08T10:00:00.000Z''\<rparr>,
      second_session\<lparr>last_execution := ''2024-01-08T10:00:00.000Z''\<rparr>]"
proof -
  let ?tbl = "[sample_session, second_session]"
  have u: "update_loop sample_env (toISOString monday_morning) (map id' ?tbl) ?tbl
     = (None,
        [SessionUpdate ''session-1'' (toISOString monday_morning) DbOk,
         SessionUpdate ''session-2'' (toISOString monday_morning) DbOk],
        [sample_session\<lparr>last_execution := toISOString monday_morning\<rparr>,
         second_session\<lparr>last_execution := toISOString monday_morning\<rparr>])"
    by (simp add: sample_env_def sample_session_def second_session_def)
  obtain ev1 where g: "getActiveTradingSessions sample_env ?tbl = (?tbl, ev1)"
    using sample_active by (cases "getActiveTradingSessions sample_env ?tbl") auto
  obtain ev3 where u2:
    "updateSessionExecutionTimes sample_env monday_morning ?tbl ?tbl =
       (ev3, [sample_session\<lparr>last_execution := toISOString monday_morning\<rparr>,
              second_session\<lparr>last_execution := toISOString monday_morning\<rparr>])"
    unfolding updateSessionExecutionTimes_def u by simp
  from handler_open_table[OF monday_open g _ u2] show ?thesis by (simp add: monday_iso)
qed

text \<open>
  C7. Across every tick the engine writes nothing of a session row but \<open>last_execution\<close>:
  the rows of the table after the handler are the rows before it up to that column, so
  \<open>is_active\<close>, the strategy code and the risk parameters of every session are unchanged,
  whether its pipeline failed or not. Clearing \<open>is_active\<close> is what the user's
  \<open>stopSession\<close> does, and it changes no other column.
\<close>

theorem handler_writes_only_last_execution:
  "map (\<lambda>r. r\<lparr>last_execution := []\<rparr>) (table (handler e now tbl))
     = map (\<lambda>r. r\<lparr>last_execution := []\<rparr>) tbl \<and>
   map is_active (table (handler e now tbl)) = map is_active tbl \<and>
   map strategy_code (table (handler e now tbl)) = map strategy_code tbl \<and>
   map risk_per_trade (table (handler e now tbl)) = map risk_per_trade tbl \<and>
   map stop_loss (table (handler e now tbl)) = map stop_loss tbl \<and>
   map take_profit (table (handler e now tbl)) = map take_profit tbl \<and>
   map max_position_size (table (handler e now tbl)) = map max_position_size tbl \<and>
   map reverse_signals (table (handler e now tbl)) = map reverse_signals tbl \<and>
   map avoid_low_volume (table (handler e now tbl)) = map avoid_low_volume tbl \<and>
   (\<forall>tbl'. stopSession db userId sessionId tbl = Inr tbl' \<longrightarrow>
      map (\<lambda>r. r\<lparr>is_active := False\<rparr>) tbl' = map (\<lambda>r. r\<lparr>is_active := False\<rparr>) tbl)"
proof -
  note f = handler_frame[of "[]" e now tbl]
  show ?thesis
    by (intro conjI allI impI f frame_field[OF f] stopSession_frame) simp_all
qed

theorem handler_writes_only_last_execution_witness:
  "fst (processTradinSession sample_env monday_morning (getMarketStatus monday_morning)
          sample_session) = Inl ''network down'' \<and>
   map last_execution (table (handler sample_env monday_morning [sample_session, second_session]))
     = [''2024-01-08T10:00:00.000Z'', ''2024-01-08T10:00:00.000Z''] \<and>
   map is_active (table (handler sample_env monday_morning [sample_session, second_session]))
     = [True, True] \<and>
   stopSession DbOk ''user-123'' (Some ''session-2'') [sample_session, second_session]
     = Inr [sample_session, second_session\<lparr>is_active := False\<rparr>] \<and>
   map (\<lambda>r. r\<lparr>is_active := False\<rparr>) [sample_session, second_session\<lparr>is_active := False\<rparr>]
     = map (\<lambda>r. r\<lparr>is_active := False\<rparr>) [sample_session, second_session]"
proof -
  let ?tbl = "[sample_session, second_session]"
  have st: "stopSession DbOk ''user-123'' (Some ''session-2'') ?tbl
              = Inr [sample_session, second_session\<lparr>is_active := False\<rparr>]"
    by (simp add: stopSession_def sample_session_def second_session_def)
  have act: "map is_active ?tbl = [True, True]"
    by (simp add: sample_session_def second_session_def)
  from handler_writes_only_last_execution
         [of sample_env monday_morning ?tbl DbOk "''user-123''" "Some ''session-2''"]
       st act sample_first_fails
  show ?thesis by (simp add: sample_table)
qed


subsection \<open>Isolation of the session pipelines\<close>

lemma log_inserts_append [simp]: "log_inserts (a @ b) = log_inserts a @ log_inserts b"
  by (simp add: log_inserts_def)

lemma log_inserts_Nil [simp]: "log_inserts [] = []"
  by (simp add: log_inserts_def)

lemma log_inserts_Cons:
  "log_inserts (ev # evs) =
     (case ev of LogInsert row outcome \<Rightarrow> [row] | _ \<Rightarrow> []) @ log_inserts evs"
  by (simp add: log_inserts_def)

lemma session_reports_append [simp]:
  "session_reports (a @ b) = session_reports a @ session_reports b"
  by (simp add: session_reports_def)

lemma session_reports_Nil [simp]: "session_reports [] = []"
  by (simp add: session_reports_def)

lemma session_reports_Cons:
  "session_reports (ev # evs) =
     (case ev of
        Console (SessionProcessed i v) \<Rightarrow> [SessionProcessed i v]
      | Console (SessionFailed i reason) \<Rightarrow> [SessionFailed i reason]
      | _ \<Rightarrow> []) @ session_reports evs"
  by (simp add: session_reports_def)

lemma logTradingActivity_inserts:
  "log_inserts (logTradingActivity e s act) = [session_row s act]"
  by (simp add: logTradingActivity_def Let_def log_inserts_Cons session_row_def
        split: db_outcome.splits)

lemma logTradingActivity_reports: "session_reports (logTradingActivity e s act) = []"
  by (simp add: logTradingActivity_def Let_def session_reports_Cons split: db_outcome.splits)

lemma fetch_events:
  "snd (fetchOANDAMarketData e s) =
     [BrokerRequest (GetCandles (baseUrl s @ ''/v3/instruments/'' @ symbol s
                                   @ ''/candles?count=500&granularity='' @ timeframe s)
                                (oanda_api_key s))]"
  by (simp add: fetchOANDAMarketData_def Let_def)

lemma trade_events:
  "snd (executeOANDATrade b s d) =
     [BrokerRequest (PostOrder (baseUrl s @ ''/v3/accounts/'' @ oanda_account_id s @ ''/orders'')
                               (oanda_api_key s) (orderData s d))]"
  by (simp add: executeOANDATrade_def Let_def)

lemma fetch_reports: "fetchOANDAMarketData e s = (r1, ev1) \<Longrightarrow> session_reports ev1 = []"
  using fetch_events[of e s] by (simp add: session_reports_Cons)

lemma trade_reports: "executeOANDATrade b s d = (r2, ev2) \<Longrightarrow> session_reports ev2 = []"
  using trade_events[of b s d] by (simp add: session_reports_Cons)

lemma fetch_inserts: "fetchOANDAMarketData e s = (r1, ev1) \<Longrightarrow> log_inserts ev1 = []"
  using fetch_events[of e s] by (simp add: log_inserts_Cons)

lemma trade_inserts: "executeOANDATrade b s d = (r2, ev2) \<Longrightarrow> log_inserts ev2 = []"
  using trade_events[of b s d] by (simp add: log_inserts_Cons)

lemma session_try_reports: "session_reports (snd (session_try e now ms s)) = []"
proof -
  obtain r1 ev1 where f: "fetchOANDAMarketData e s = (r1, ev1)"
    by (cases "fetchOANDAMarketData e s") auto
  note ev1 = fetch_reports[OF f]
  show ?thesis
    using f ev1 trade_reports
    by (simp add: session_try_def Let_def session_reports_Cons logTradingActivity_reports
          split: sum.split prod.split option.split)
qed

lemma processTradinSession_reports:
  "session_reports (snd (processTradinSession e now ms s)) = []"
proof -
  obtain r evs where t: "session_try e now ms s = (r, evs)"
    by (cases "session_try e now ms s") auto
  with session_try_reports[of e now ms s] have "session_reports evs = []" by simp
  with t show ?thesis
    by (simp add: processTradinSession_def session_reports_Cons logTradingActivity_reports
          split: sum.split)
qed

text \<open>
  A \<open>try\<close> block that throws has logged nothing yet; one that returns has logged its
  outcome once.
\<close>

lemma session_try_inserts:
  "session_try e now ms s = (r, evs) \<Longrightarrow>
   (case r of
      Inl err \<Rightarrow> log_inserts evs = []
    | Inr v \<Rightarrow> (\<exists>act. log_inserts evs = [session_row s act]
                     \<and> logType act = outcome_log_type (Inr v)))"
proof -
  obtain r1 ev1 where f: "fetchOANDAMarketData e s = (r1, ev1)"
    by (cases "fetchOANDAMarketData e s") auto
  note ev1 = fetch_inserts[OF f]
  assume "session_try e now ms s = (r, evs)"
  then show ?thesis
    using f ev1 trade_inserts
    by (auto simp add: session_try_def Let_def log_inserts_Cons logTradingActivity_inserts
          outcome_log_type_def
          split: sum.splits prod.splits option.splits if_splits)
qed

lemma processTradinSession_inserts:
  "\<exists>act. log_inserts (snd (processTradinSession e now ms s)) = [session_row s act] \<and>
         logType act = outcome_log_type (fst (processTradinSession e now ms s))"
proof -
  obtain r evs where t: "session_try e now ms s = (r, evs)"
    by (cases "session_try e now ms s") auto
  show ?thesis
  proof (cases r)
    case (Inl err)
    with session_try_inserts[OF t] have "log_inserts evs = []" by simp
    with t Inl show ?thesis
      by (simp add: processTradinSession_def log_inserts_Cons logTradingActivity_inserts
            outcome_log_type_def)
         (rule exI, rule conjI, rule refl, simp)
  next
    case (Inr v)
    with session_try_inserts[OF t] obtain act where
      "log_inserts evs = [session_row s act]" "logType act = outcome_log_type (Inr v)"
      by auto
    with t Inr show ?thesis
      by (auto simp add: processTradinSession_def log_inserts_Cons)
  qed
qed

lemma update_loop_quiet:
  "update_loop e ts ids tbl = (thrown, evs, tbl') \<Longrightarrow>
   log_inserts evs = [] \<and> session_reports evs = []"
proof (induction ids arbitrary: tbl thrown evs tbl')
  case Nil
  then show ?case by simp
next
  case (Cons i ids)
  show ?case
  proof (cases "update_session e i")
    case DbOk
    obtain t2 ev2 tb2 where r:
      "update_loop e ts ids
         (map (\<lambda>r. if id' r = i then r\<lparr>last_execution := ts\<rparr> else r) tbl) = (t2, ev2, tb2)"
      by (cases "update_loop e ts ids
                   (map (\<lambda>r. if id' r = i then r\<lparr>last_execution := ts\<rparr> else r) tbl)") auto
    with Cons.prems DbOk have "evs = SessionUpdate i ts DbOk # ev2" by simp
    with Cons.IH[OF r] show ?thesis
      by (simp add: log_inserts_Cons session_reports_Cons)
  next
    case (DbError m)
    obtain t2 ev2 tb2 where r: "update_loop e ts ids tbl = (t2, ev2, tb2)"
      by (cases "update_loop e ts ids tbl") auto
    with Cons.prems DbError have "evs = SessionUpdate i ts (DbError m) # ev2" by simp
    with Cons.IH[OF r] show ?thesis
      by (simp add: log_inserts_Cons session_reports_Cons)
  next
    case (DbThrows m)
    with Cons.prems show ?thesis
      by (auto simp add: log_inserts_Cons session_reports_Cons)
  qed
qed

lemma updateSessionExecutionTimes_quiet:
  assumes "updateSessionExecutionTimes e now ss tbl = (evs, tbl')"
  shows "log_inserts evs = [] \<and> session_reports evs = []"
proof -
  obtain thrown ev2 tb2 where u: "update_loop e (toISOString now) (map id' ss) tbl = (thrown, ev2, tb2)"
    by (cases "update_loop e (toISOString now) (map id' ss) tbl") auto
  from update_loop_quiet[OF u] assms u show ?thesis
    by (cases thrown)
       (auto simp add: updateSessionExecutionTimes_def log_inserts_Cons session_reports_Cons)
qed

lemma getActiveTradingSessions_quiet:
  "log_inserts (snd (getActiveTradingSessions e tbl)) = [] \<and>
   session_reports (snd (getActiveTradingSessions e tbl)) = []"
  by (simp add: getActiveTradingSessions_def log_inserts_Cons session_reports_Cons
        split: db_outcome.split)

lemma pipelines_reports:
  "session_reports (concat (map snd (map (processTradinSession e now ms) ss))) = []"
  by (induction ss) (simp_all add: processTradinSession_reports)

lemma pipelines_inserts:
  "map log_session_id
       (log_inserts (concat (map snd (map (processTradinSession e now ms) ss)))) = map id' ss \<and>
   map log_type
       (log_inserts (concat (map snd (map (processTradinSession e now ms) ss)))) =
     map (\<lambda>s. outcome_log_type (fst (processTradinSession e now ms s))) ss"
proof (induction ss)
  case Nil
  then show ?case by simp
next
  case (Cons s ss)
  from processTradinSession_inserts[of e now ms s] obtain act where
    "log_inserts (snd (processTradinSession e now ms s)) = [session_row s act]"
    "logType act = outcome_log_type (fst (processTradinSession e now ms s))"
    by auto
  with Cons.IH show ?case by (simp add: session_row_def)
qed

lemma report_lines_reports:
  "session_reports (map (\<lambda>p. Console (report_line p)) ps) = map report_line ps"
  by (induction ps) (simp_all add: session_reports_Cons report_line_def split: settled.split)

lemma report_lines_inserts:
  "log_inserts (map (\<lambda>p. Console (report_line p)) ps) = []"
  by (induction ps) (simp_all add: log_inserts_Cons)

text \<open>
  The rows stored in \<open>trading_logs\<close> are the inserts that the database accepted.
\<close>

lemma audit_records_append [simp]:
  "audit_records (a @ b) = audit_records a @ audit_records b"
  by (simp add: audit_records_def)

lemma audit_records_Nil [simp]: "audit_records [] = []"
  by (simp add: audit_records_def)

lemma audit_records_Cons:
  "audit_records (ev # evs) =
     (case ev of LogInsert row DbOk \<Rightarrow> [row] | _ \<Rightarrow> []) @ audit_records evs"
  by (simp add: audit_records_def)

lemma audit_none: "log_inserts evs = [] \<Longrightarrow> audit_records evs = []"
proof (induction evs)
  case Nil
  then show ?case by simp
next
  case (Cons ev evs)
  then show ?case
    by (cases ev) (simp_all add: log_inserts_Cons audit_records_Cons)
qed

lemma logTradingActivity_stored:
  "audit_records (logTradingActivity e s act) =
     filter (\<lambda>row. insert_log e row = DbOk) (log_inserts (logTradingActivity e s act))"
  by (simp add: logTradingActivity_def Let_def audit_records_Cons log_inserts_Cons
        split: db_outcome.splits)

lemma session_try_stored:
  "audit_records (snd (session_try e now ms s)) =
     filter (\<lambda>row. insert_log e row = DbOk) (log_inserts (snd (session_try e now ms s)))"
proof -
  obtain r1 ev1 where f: "fetchOANDAMarketData e s = (r1, ev1)"
    by (cases "fetchOANDAMarketData e s") auto
  note i1 = fetch_inserts[OF f]
  note a1 = audit_none[OF i1]
  have a2: "audit_records ev2 = []" if "executeOANDATrade b s d = (r2, ev2)" for b d r2 ev2
    using trade_inserts[OF that] by (rule audit_none)
  show ?thesis
    using f i1 a1 a2 trade_inserts
    by (simp add: session_try_def Let_def log_inserts_Cons audit_records_Cons
          logTradingActivity_stored
          split: sum.split prod.split option.split)
qed

lemma processTradinSession_stored:
  "audit_records (snd (processTradinSession e now ms s)) =
     filter (\<lambda>row. insert_log e row = DbOk)
       (log_inserts (snd (processTradinSession e now ms s)))"
proof -
  obtain r evs where t: "session_try e now ms s = (r, evs)"
    by (cases "session_try e now ms s") auto
  with session_try_stored[of e now ms s]
  have "audit_records evs = filter (\<lambda>row. insert_log e row = DbOk) (log_inserts evs)"
    by simp
  with t show ?thesis
    by (simp add: processTradinSession_def log_inserts_Cons audit_records_Cons
          logTradingActivity_stored
          split: sum.split)
qed

lemma pipelines_stored:
  "audit_records (concat (map snd (map (processTradinSession e now ms) ss))) =
     filter (\<lambda>row. insert_log e row = DbOk)
       (log_inserts (concat (map snd (map (processTradinSession e now ms) ss))))"
  by (induction ss) (simp_all add: processTradinSession_stored)

lemma handler_stored:
  "audit_records (events (handler e now tbl)) =
     filter (\<lambda>row. insert_log e row = DbOk) (log_inserts (events (handler e now tbl)))"
proof (cases "isOpen (getMarketStatus now)")
  case False
  then show ?thesis
    by (simp add: handler_def Let_def log_inserts_Cons audit_records_Cons)
next
  case True
  let ?ms = "getMarketStatus now"
  obtain act ev1 where g: "getActiveTradingSessions e tbl = (act, ev1)"
    by (cases "getActiveTradingSessions e tbl") auto
  from getActiveTradingSessions_quiet[of e tbl] g
  have q1: "log_inserts ev1 = []" by simp
  note a1 = audit_none[OF q1]
  obtain ev3 tbl' where u: "updateSessionExecutionTimes e now act tbl = (ev3, tbl')"
    by (cases "updateSessionExecutionTimes e now act tbl") auto
  from updateSessionExecutionTimes_quiet[OF u]
  have q3: "log_inserts ev3 = []" by simp
  note a3 = audit_none[OF q3]
  have a4: "audit_records (map (\<lambda>p. Console (report_line p)) ps) = []" for ps
    using report_lines_inserts[of ps] by (rule audit_none)
  show ?thesis
  proof (cases "act = []")
    case True
    with \<open>isOpen ?ms\<close> g q1 a1 show ?thesis
      by (simp add: handler_def Let_def log_inserts_Cons audit_records_Cons)
  next
    case False
    with \<open>isOpen ?ms\<close> g u q1 q3 a1 a3 a4 pipelines_stored[of e now ?ms act]
    show ?thesis
      by (simp add: handler_def Let_def allSettled_def log_inserts_Cons audit_records_Cons
            report_lines_inserts)
  qed
qed

text \<open>
  C1. In a tick with the market open, whatever sessions are active and whichever of their
  pipelines throw: the handler answers 200 with the number of sessions and the counts of
  those that were fulfilled and that failed; it reports one settled result for every
  active session, the result of that session's own pipeline (fulfilled with its value or
  rejected with its error); and every session's pipeline has issued one insert into the
  audit log, of type \<open>error\<close> when it threw and of type \<open>trade\<close> or \<open>info\<close> when it
  returned. The rows stored in the audit log are those of these inserts that the database
  accepted: when it accepts every insert, the audit log has gained exactly one row for
  every active session, in the order of the sessions, with the type of that session's
  outcome.
\<close>

theorem handler_isolates_session_failures:
  assumes "isOpen (getMarketStatus now)"
  shows "statusCode (response (handler e now tbl)) = 200 \<and>
         body (response (handler e now tbl)) =
           (if fst (getActiveTradingSessions e tbl) = [] then NoActiveSessions
            else ExecutionCompleted
                   (length (fst (getActiveTradingSessions e tbl)))
                   (length (filter (\<lambda>s. \<not> isl (fst (processTradinSession e now
                                                       (getMarketStatus now) s)))
                              (fst (getActiveTradingSessions e tbl))))
                   (length (filter (\<lambda>s. isl (fst (processTradinSession e now
                                                     (getMarketStatus now) s)))
                              (fst (getActiveTradingSessions e tbl))))
                   (formatMarketStatus (getMarketStatus now)) (toISOString now)) \<and>
         session_reports (events (handler e now tbl)) =
           map report_line
             (enumerate 0
                (map (\<lambda>s. settle (fst (processTradinSession e now (getMarketStatus now) s)))
                     (fst (getActiveTradingSessions e tbl)))) \<and>
         map log_session_id (log_inserts (events (handler e now tbl))) =
           map id' (fst (getActiveTradingSessions e tbl)) \<and>
         map log_type (log_inserts (events (handler e now tbl))) =
           map (\<lambda>s. outcome_log_type (fst (processTradinSession e now (getMarketStatus now) s)))
               (fst (getActiveTradingSessions e tbl)) \<and>
         audit_records (events (handler e now tbl)) =
           filter (\<lambda>row. insert_log e row = DbOk) (log_inserts (events (handler e now tbl))) \<and>
         ((\<forall>row. insert_log e row = DbOk) \<longrightarrow>
            map log_session_id (audit_records (events (handler e now tbl))) =
              map id' (fst (getActiveTradingSessions e tbl)) \<and>
            map log_type (audit_records (events (handler e now tbl))) =
              map (\<lambda>s. outcome_log_type
                         (fst (processTradinSession e now (getMarketStatus now) s)))
                  (fst (getActiveTradingSessions e tbl)))"
proof -
  let ?ms = "getMarketStatus now"
  obtain act ev1 where g: "getActiveTradingSessions e tbl = (act, ev1)"
    by (cases "getActiveTradingSessions e tbl") auto
  from getActiveTradingSessions_quiet[of e tbl] g
  have q1: "log_inserts ev1 = []" "session_reports ev1 = []" by simp_all
  obtain ev3 tbl' where u: "updateSessionExecutionTimes e now act tbl = (ev3, tbl')"
    by (cases "updateSessionExecutionTimes e now act tbl") auto
  from updateSessionExecutionTimes_quiet[OF u]
  have q3: "log_inserts ev3 = []" "session_reports ev3 = []" by simp_all
  have main:
        "statusCode (response (handler e now tbl)) = 200 \<and>
         body (response (handler e now tbl)) =
           (if fst (getActiveTradingSessions e tbl) = [] then NoActiveSessions
            else ExecutionCompleted
                   (length (fst (getActiveTradingSessions e tbl)))
                   (length (filter (\<lambda>s. \<not> isl (fst (processTradinSession e now
                                                       (getMarketStatus now) s)))
                              (fst (getActiveTradingSessions e tbl))))
                   (length (filter (\<lambda>s. isl (fst (processTradinSession e now
                                                     (getMarketStatus now) s)))
                              (fst (getActiveTradingSessions e tbl))))
                   (formatMarketStatus (getMarketStatus now)) (toISOString now)) \<and>
         session_reports (events (handler e now tbl)) =
           map report_line
             (enumerate 0
                (map (\<lambda>s. settle (fst (processTradinSession e now (getMarketStatus now) s)))
                     (fst (getActiveTradingSessions e tbl)))) \<and>
         map log_session_id (log_inserts (events (handler e now tbl))) =
           map id' (fst (getActiveTradingSessions e tbl)) \<and>
         map log_type (log_inserts (events (handler e now tbl))) =
           map (\<lambda>s. outcome_log_type (fst (processTradinSession e now (getMarketStatus now) s)))
               (fst (getActiveTradingSessions e tbl))"
  proof (cases "act = []")
    case True
    with assms g q1 show ?thesis
      by (simp add: handler_def Let_def log_inserts_Cons session_reports_Cons enumerate_eq_zip)
  next
    case False
    with assms g u q1 q3 pipelines_reports[of e now ?ms act] pipelines_inserts[of e now ?ms act]
    show ?thesis
      by (simp add: handler_def Let_def allSettled_def log_inserts_Cons session_reports_Cons
            report_lines_reports report_lines_inserts settle_def comp_def
            filter_map is_fulfilled_def sum.case_eq_if)
  qed
  note stored = handler_stored[of e now tbl]
  have all: "audit_records (events (handler e now tbl)) = log_inserts (events (handler e now tbl))"
    if "\<forall>row. insert_log e row = DbOk"
    using stored that by simp
  from main stored all show ?thesis by metis
qed

theorem handler_isolates_session_failures_witness:
  "isOpen (getMarketStatus monday_morning) \<and>
   (\<forall>row. insert_log sample_env row = DbOk) \<and>
   statusCode (response (handler sample_env monday_morning [sample_session, second_session]))
     = 200 \<and>
   body (response (handler sample_env monday_morning [sample_session, second_session]))
     = ExecutionCompleted 2 1 1 ''Markets Open (medium volume)'' ''2024-01-08T10:00:00.000Z'' \<and>
   session_reports (events (handler sample_env monday_morning [sample_session, second_session]))
     = [SessionFailed 1 ''network down'',
        SessionProcessed 2 (NO_SIGNAL ''session-2'' ''EUR_USD'' ''2024-01-08T10:00:00.000Z'')] \<and>
   map log_session_id
       (log_inserts (events (handler sample_env monday_morning [sample_session, second_session])))
     = [''session-1'', ''session-2''] \<and>
   map log_type
       (log_inserts (events (handler sample_env monday_morning [sample_session, second_session])))
     = [''error'', ''info''] \<and>
   map log_session_id
       (audit_records (events (handler sample_env monday_morning [sample_session, second_session])))
     = [''session-1'', ''session-2''] \<and>
   map log_type
       (audit_records (events (handler sample_env monday_morning [sample_session, second_session])))
     = [''error'', ''info'']"
proof -
  have ids: "id' sample_session = ''session-1''" "id' second_session = ''session-2''"
    by (simp_all add: sample_session_def second_session_def)
  have db: "\<forall>row. insert_log sample_env row = DbOk"
    by (simp add: sample_env_def)
  from handler_isolates_session_failures
         [OF monday_open, of sample_env "[sample_session, second_session]"] db
  show ?thesis
    by (simp add: monday_open sample_active sample_first_fails sample_second_no_signal ids
          enumerate_eq_zip report_line_def settle_def outcome_log_type_def
          monday_format monday_iso)
qed


section \<open>Properties of the strategy sandbox\<close>

lemma check_fails: "js_truthy (runPython_value check_snippet) = False"
  by (simp add: check_snippet_def runPython_value_def js_truthy_def)

lemma plain_close:
  "plainMarketData md = Inr plain \<Longrightarrow> close_length md = length (close plain)"
  by (auto simp add: plainMarketData_def close_length_def split: option.splits)

lemma fallback_empty:
  "JsObject [(''entry'', JsArray []), (''exit'', JsArray []), (''direction'', JsArray []),
             (''error'', JsStr msg)] = fallback 0 msg"
  by (simp add: fallback_def)

text \<open>
  The outer \<open>try\<close> block either throws or returns the fallback with a non-empty marker: the
  availability check returns \<open>undefined\<close>, so the block returns before the strategy is
  called.
\<close>

lemma executeStrategy_try_cases:
  "(\<exists>m. executeStrategy_try py code md = Inl m) \<or>
   (\<exists>msg. msg \<noteq> [] \<and> executeStrategy_try py code md = Inr (fallback (close_length md) msg))"
proof (cases "close_length md = 0")
  case True
  then have "executeStrategy_try py code md
               = Inr (fallback (close_length md) ''Invalid market data: no close prices available'')"
    by (simp add: executeStrategy_try_def fallback_def)
  then show ?thesis by blast
next
  case n: False
  show ?thesis
  proof (cases "init_error py")
    case (Some m)
    with n have "executeStrategy_try py code md
                   = Inr (fallback (close_length md) (''Pyodide initialization failed: '' @ m))"
      by (simp add: executeStrategy_try_def)
    then show ?thesis by blast
  next
    case init: None
    show ?thesis
    proof (cases "plainMarketData md")
      case (Inl m)
      with n init have "executeStrategy_try py code md = Inl m"
        by (simp add: executeStrategy_try_def)
      then show ?thesis by blast
    next
      case (Inr plain)
      show ?thesis
      proof (cases "None \<in> set (close plain)")
        case True
        with n init Inr have "executeStrategy_try py code md
              = Inr (fallback (close_length md)
                       ''Invalid market data: NaN values detected in close prices'')"
          by (simp add: executeStrategy_try_def)
        then show ?thesis by blast
      next
        case nan: False
        show ?thesis
        proof (cases "set_error py")
          case (Some m)
          with n init Inr nan have "executeStrategy_try py code md
                = Inr (fallback (close_length md) (''Failed to set data in Python: '' @ m))"
            by (simp add: executeStrategy_try_def)
          then show ?thesis by blast
        next
          case None
          with n init Inr nan have "executeStrategy_try py code md
                = Inr (fallback (close_length md)
                         (''Python environment not properly initialized: ''
                          @ ''execute_strategy function not found''))"
            by (simp add: executeStrategy_try_def check_fails)
          then show ?thesis by blast
        qed
      qed
    qed
  qed
qed

lemma executeStrategy_cases:
  "\<exists>msg. msg \<noteq> [] \<and> executeStrategy py code md = Inr (fallback (close_length md) msg)"
proof -
  from executeStrategy_try_cases[of py code md]
  consider (thrown) m where "executeStrategy_try py code md = Inl m"
    | (fb) msg where "msg \<noteq> []"
        "executeStrategy_try py code md = Inr (fallback (close_length md) msg)"
    by blast
  then show ?thesis
  proof cases
    case thrown
    then have "executeStrategy py code md
                 = Inr (fallback (close_length md) (''Critical execution error: '' @ m))"
      by (simp add: executeStrategy_def)
    then show ?thesis by blast
  next
    case fb
    then have "executeStrategy py code md = Inr (fallback (close_length md) msg)"
      by (simp add: executeStrategy_def)
    with fb(1) show ?thesis by blast
  qed
qed

lemma executeStrategy_check:
  assumes "init_error py = None" and "plainMarketData md = Inr plain"
    and "close plain \<noteq> []" and "None \<notin> set (close plain)" and "set_error py = None"
  shows "executeStrategy py code md
           = Inr (fallback (length (close plain))
                    (''Python environment not properly initialized: ''
                     @ ''execute_strategy function not found''))"
proof -
  from assms(2) have l: "close_length md = length (close plain)" by (rule plain_close)
  with assms(3) have n: "close_length md \<noteq> 0" by simp
  from n l assms show ?thesis
    by (simp add: executeStrategy_def executeStrategy_try_def check_fails)
qed

text \<open>
  C2. For every runtime, strategy code and market data with a close array of length L,
  \<open>PythonExecutor.executeStrategy\<close> resolves (it never rejects), and its result has
  \<open>entry\<close> = L copies of false, \<open>exit\<close> = L copies of false, \<open>direction\<close> = L copies of null
  and a non-empty error marker. This holds whatever the strategy call does or would do,
  so in particular when it fails, returns \<open>None\<close> or returns an ill-formed value: with the
  runtime initialised, the data free of NaN and handed over, the availability check of the
  executor yields \<open>undefined\<close>, and the executor returns the fallback marked
  \<open>execute_strategy function not found\<close> before it calls the strategy.
\<close>

theorem executeStrategy_returns_fallback:
  "(\<exists>msg. msg \<noteq> [] \<and>
      executeStrategy py code md =
        Inr (JsObject [(''entry'', JsArray (replicate (close_length md) (JsBool False))),
                       (''exit'', JsArray (replicate (close_length md) (JsBool False))),
                       (''direction'', JsArray (replicate (close_length md) JsNull)),
                       (''error'', JsStr msg)])) \<and>
   (\<forall>plain. init_error py = None \<and> plainMarketData md = Inr plain \<and> close plain \<noteq> [] \<and>
            None \<notin> set (close plain) \<and> set_error py = None \<longrightarrow>
      executeStrategy py code md =
        Inr (fallback (length (close plain))
               ''Python environment not properly initialized: execute_strategy function not found''))"
proof (intro conjI allI impI)
  from executeStrategy_cases[of py code md]
  show "\<exists>msg. msg \<noteq> [] \<and>
      executeStrategy py code md =
        Inr (JsObject [(''entry'', JsArray (replicate (close_length md) (JsBool False))),
                       (''exit'', JsArray (replicate (close_length md) (JsBool False))),
                       (''direction'', JsArray (replicate (close_length md) JsNull)),
                       (''error'', JsStr msg)])"
    by (simp add: fallback_def)
next
  fix plain
  assume a: "init_error py = None \<and> plainMarketData md = Inr plain \<and> close plain \<noteq> [] \<and>
            None \<notin> set (close plain) \<and> set_error py = None"
  then have "executeStrategy py code md
           = Inr (fallback (length (close plain))
                    (''Python environment not properly initialized: ''
                     @ ''execute_strategy function not found''))"
    by (intro executeStrategy_check) simp_all
  then show "executeStrategy py code md =
        Inr (fallback (length (close plain))
               ''Python environment not properly initialized: execute_strategy function not found'')"
    by simp
qed

text \<open>
  Two bars and a runtime whose strategy call would return a well-formed dict, or \<open>None\<close>.
\<close>

theorem executeStrategy_returns_fallback_witness:
  "init_error (sandbox_returning well_formed_dict) = None \<and>
   plainMarketData two_bars = Inr two_bars_plain \<and>
   close two_bars_plain \<noteq> [] \<and>
   None \<notin> set (close two_bars_plain) \<and>
   set_error (sandbox_returning well_formed_dict) = None \<and>
   executeStrategy (sandbox_returning well_formed_dict) [] two_bars =
     Inr (fallback 2
            ''Python environment not properly initialized: execute_strategy function not found'') \<and>
   executeStrategy (sandbox_returning PyNone) [] two_bars =
     Inr (JsObject [(''entry'', JsArray [JsBool False, JsBool False]),
                    (''exit'', JsArray [JsBool False, JsBool False]),
                    (''direction'', JsArray [JsNull, JsNull]),
                    (''error'', JsStr
            ''Python environment not properly initialized: execute_strategy function not found'')])"
proof -
  have h: "init_error (sandbox_returning v) = None" "set_error (sandbox_returning v) = None"
    for v
    by (simp_all add: sandbox_returning_def)
  have p: "plainMarketData two_bars = Inr two_bars_plain"
    by (simp add: plainMarketData_def two_bars_def two_bars_plain_def)
  have c: "close two_bars_plain \<noteq> []" "None \<notin> set (close two_bars_plain)"
          "length (close two_bars_plain) = 2"
    by (simp_all add: two_bars_plain_def)
  from executeStrategy_returns_fallback[of "sandbox_returning well_formed_dict" "[]" two_bars]
       h p c
  have a: "executeStrategy (sandbox_returning well_formed_dict) [] two_bars =
     Inr (fallback 2
            ''Python environment not properly initialized: execute_strategy function not found'')"
    by auto
  from executeStrategy_returns_fallback[of "sandbox_returning PyNone" "[]" two_bars]
       h p c
  have b: "executeStrategy (sandbox_returning PyNone) [] two_bars =
     Inr (fallback 2
            ''Python environment not properly initialized: execute_strategy function not found'')"
    by auto
  from h p c a b show ?thesis
    by (simp add: fallback_def numeral_2_eq_2)
qed













end
